theory Spec2Isabelle
  imports Main "HOL-Library.Word" "HOL-Library.Sublist"
begin

unbundle bit_operations_syntax

section \<open>Wire encoding\<close>

text \<open>
  The client talks to the remote application through a \<open>QTcpSocket\<close>, reading and
  writing binary fields with a \<open>QDataStream\<close> in its default (big-endian) byte order.
  A \<open>qint32\<close> is four bytes, a \<open>quint64\<close> and a \<open>double\<close> are eight bytes. A double
  is modelled by its IEEE-754 bit pattern, a 64-bit word: the stream copies the pattern
  and never computes with it.
\<close>

type_synonym byte = "8 word"
type_synonym double = "64 word"

definition be32 :: "32 word \<Rightarrow> byte list" where
  "be32 w = [ucast (drop_bit 24 w), ucast (drop_bit 16 w), ucast (drop_bit 8 w), ucast w]"

definition be64 :: "64 word \<Rightarrow> byte list" where
  "be64 w = [ucast (drop_bit 56 w), ucast (drop_bit 48 w), ucast (drop_bit 40 w),
             ucast (drop_bit 32 w), ucast (drop_bit 24 w), ucast (drop_bit 16 w),
             ucast (drop_bit 8 w), ucast w]"

definition be_decode :: "byte list \<Rightarrow> 'a::len word" where
  "be_decode bs = foldl (\<lambda>acc b. push_bit 8 acc OR ucast b) 0 bs"

text \<open>Text is UTF-8; a HOL \<open>string\<close> is already a sequence of 8-bit characters.\<close>

definition toUtf8 :: "string \<Rightarrow> byte list" where
  "toUtf8 str = map (\<lambda>c. word_of_nat (of_char c)) str"

definition fromUtf8 :: "byte list \<Rightarrow> string" where
  "fromUtf8 bs = map (\<lambda>b. char_of (unat b)) bs"

definition LF :: byte where
  "LF = 10"

definition ROBODK_API_LF :: "byte list" where
  "ROBODK_API_LF = [LF]"

definition ROBODK_API_TIMEOUT :: int where
  "ROBODK_API_TIMEOUT = 1000"

definition ROBODK_API_START_STRING :: string where
  "ROBODK_API_START_STRING = ''CMD_START''"

definition ROBODK_API_READY_STRING :: string where
  "ROBODK_API_READY_STRING = ''READY''"

text \<open>\<open>QByteArray::trimmed\<close>: white space removed at both ends.\<close>

definition is_space :: "byte \<Rightarrow> bool" where
  "is_space b = (b = 32 \<or> (9 \<le> b \<and> b \<le> 13))"

definition trimmed :: "byte list \<Rightarrow> byte list" where
  "trimmed bs = rev (dropWhile is_space (rev (dropWhile is_space bs)))"

section \<open>The socket\<close>

text \<open>
  The socket is the program's environment. Its model holds the bytes that have been
  received and not yet read (\<open>buffer\<close>, whose length is \<open>bytesAvailable\<close>), the
  chunks the peer will still deliver, each with the delay in milliseconds after which
  it arrives (\<open>arrivals\<close>), and the history of what the client wrote and read, in
  order (\<open>io_log\<close>). An empty \<open>arrivals\<close> is a peer that sends nothing more.
\<close>

datatype SocketState = UnconnectedState | ConnectedState

datatype io_event = is_Wr: Wr "byte list" | is_Rd: Rd "byte list"

record QTcpSocket =
  sock_state :: SocketState
  isOpen :: bool
  buffer :: "byte list"
  arrivals :: "(nat \<times> byte list) list"
  io_log :: "io_event list"

definition bytesAvailable :: "QTcpSocket \<Rightarrow> int" where
  "bytesAvailable sock = int (length (buffer sock))"

definition canReadLine :: "QTcpSocket \<Rightarrow> bool" where
  "canReadLine sock = (LF \<in> set (buffer sock))"

definition sock_write :: "byte list \<Rightarrow> QTcpSocket \<Rightarrow> QTcpSocket" where
  "sock_write bs sock = sock\<lparr>io_log := io_log sock @ [Wr bs]\<rparr>"

text \<open>
  \<open>waitForReadyRead(msecs)\<close> blocks until new data arrives or \<open>msecs\<close> milliseconds
  have passed (a negative \<open>msecs\<close> never times out). It returns whether new data
  arrived. A wait that times out has used up \<open>msecs\<close> of the next chunk's delay.
\<close>

definition waitForReadyRead :: "int \<Rightarrow> QTcpSocket \<Rightarrow> bool \<times> QTcpSocket" where
  "waitForReadyRead msecs sock =
     (case arrivals sock of
        [] \<Rightarrow> (False, sock)
      | (d, bs) # rest \<Rightarrow>
          if msecs < 0 \<or> int d \<le> msecs
          then (True, sock\<lparr>buffer := buffer sock @ bs, arrivals := rest\<rparr>)
          else (False, sock\<lparr>arrivals := (d - nat msecs, bs) # rest\<rparr>))"

definition readAll :: "QTcpSocket \<Rightarrow> byte list \<times> QTcpSocket" where
  "readAll sock =
     (buffer sock, sock\<lparr>buffer := [], io_log := io_log sock @ [Rd (buffer sock)]\<rparr>)"

text \<open>\<open>readLine\<close> takes the bytes up to and including the first line feed.\<close>

definition readLine :: "QTcpSocket \<Rightarrow> byte list \<times> QTcpSocket" where
  "readLine sock =
     (let n = Suc (length (takeWhile (\<lambda>b. b \<noteq> LF) (buffer sock)));
          line = take n (buffer sock)
      in (line, sock\<lparr>buffer := drop n (buffer sock), io_log := io_log sock @ [Rd line]\<rparr>))"

text \<open>
  A \<open>QDataStream\<close> read of \<open>n\<close> bytes. When fewer than \<open>n\<close> bytes are buffered the
  stream takes what is there and the extraction operator leaves 0 in its target.
\<close>

definition ds_read :: "nat \<Rightarrow> QTcpSocket \<Rightarrow> byte list option \<times> QTcpSocket" where
  "ds_read n sock =
     (if n \<le> length (buffer sock)
      then (Some (take n (buffer sock)),
            sock\<lparr>buffer := drop n (buffer sock),
                 io_log := io_log sock @ [Rd (take n (buffer sock))]\<rparr>)
      else (None, sock\<lparr>buffer := [], io_log := io_log sock @ [Rd (buffer sock)]\<rparr>))"

definition ds_qint32 :: "QTcpSocket \<Rightarrow> int \<times> QTcpSocket" where
  "ds_qint32 sock =
     (case ds_read 4 sock of
        (Some bs, sock') \<Rightarrow> (sint (be_decode bs :: 32 word), sock')
      | (None, sock') \<Rightarrow> (0, sock'))"

definition ds_quint64 :: "QTcpSocket \<Rightarrow> 64 word \<times> QTcpSocket" where
  "ds_quint64 sock =
     (case ds_read 8 sock of
        (Some bs, sock') \<Rightarrow> (be_decode bs, sock')
      | (None, sock') \<Rightarrow> (0, sock'))"

definition ds_double :: "QTcpSocket \<Rightarrow> double \<times> QTcpSocket" where
  "ds_double sock = ds_quint64 sock"

text \<open>The bytes written to a socket so far, in order.\<close>

fun written :: "io_event list \<Rightarrow> byte list" where
  "written [] = []"
| "written (Wr bs # es) = bs @ written es"
| "written (Rd bs # es) = written es"

section \<open>The client\<close>

text \<open>
  \<open>COM\<close> is the socket pointer (\<open>None\<close> is \<open>NULL\<close>), \<open>TIMEOUT\<close> the shared timeout in
  milliseconds. \<open>network\<close> and \<open>launches\<close> are the environment: what each later
  connection attempt meets (whether and after how many milliseconds the server accepts,
  and what it then sends), and the process identifier and output lines of each launch of
  the external executable.
\<close>

record connect_attempt =
  accept_after :: "nat option"
  replies :: "(nat \<times> byte list) list"

record RoboDK =
  COM :: "QTcpSocket option"
  TIMEOUT :: int
  PROCESS :: int
  network :: "connect_attempt list"
  launches :: "(int \<times> string list) list"

definition connected :: "RoboDK \<Rightarrow> bool" where
  "connected s = (case COM s of None \<Rightarrow> False | Some sock \<Rightarrow> sock_state sock = ConnectedState)"

text \<open>
  The idiom that opens every binary receive: if fewer than \<open>n\<close> bytes are buffered,
  wait once for more, and give up if there are still fewer than \<open>n\<close>.
\<close>

definition await_bytes :: "int \<Rightarrow> int \<Rightarrow> QTcpSocket \<Rightarrow> bool \<times> QTcpSocket" where
  "await_bytes n msecs sock =
     (if bytesAvailable sock < n
      then (let (r, sock1) = waitForReadyRead msecs sock
            in if bytesAvailable sock1 < n then (False, sock1) else (True, sock1))
      else (True, sock))"

function waitline_loop :: "int \<Rightarrow> QTcpSocket \<Rightarrow> bool \<times> QTcpSocket" where
  "waitline_loop msecs sock =
     (if \<not> canReadLine sock
      then (case waitForReadyRead msecs sock of
              (False, sock1) \<Rightarrow> (False, sock1)
            | (True, sock1) \<Rightarrow> waitline_loop msecs sock1)
      else (True, sock))"
  by pat_completeness auto
termination
  by (relation "measure (\<lambda>(msecs, sock). length (arrivals sock))")
     (auto simp: waitForReadyRead_def split: list.splits if_splits)

declare waitline_loop.simps [simp del]

definition waitline :: "RoboDK \<Rightarrow> bool \<times> RoboDK" where
  "waitline s =
     (case COM s of
        None \<Rightarrow> (False, s)
      | Some sock \<Rightarrow>
          (let (ok, sock1) = waitline_loop (TIMEOUT s) sock
           in (ok, s\<lparr>COM := Some sock1\<rparr>)))"

definition recv_Line :: "RoboDK \<Rightarrow> string \<times> RoboDK" where
  "recv_Line s =
     (let (ok, s1) = waitline s
      in if \<not> ok
         then (case COM s1 of
                 None \<Rightarrow> ([], s1)
               | Some sock \<Rightarrow> ([], s1\<lparr>COM := Some (snd (readAll sock))\<rparr>))
         else (case COM s1 of
                 None \<Rightarrow> ([], s1)
               | Some sock \<Rightarrow>
                   (let (line, sock1) = readLine sock
                    in (fromUtf8 (trimmed line), s1\<lparr>COM := Some sock1\<rparr>))))"

definition send_Line :: "string \<Rightarrow> RoboDK \<Rightarrow> bool \<times> RoboDK" where
  "send_Line str s =
     (case COM s of
        None \<Rightarrow> (False, s)
      | Some sock \<Rightarrow>
          if \<not> isOpen sock then (False, s)
          else (True, s\<lparr>COM := Some (sock_write ROBODK_API_LF (sock_write (toUtf8 str) sock))\<rparr>))"

text \<open>With no socket \<open>_recv_Int\<close> returns \<open>false\<close>, that is 0.\<close>

definition recv_Int :: "RoboDK \<Rightarrow> int \<times> RoboDK" where
  "recv_Int s =
     (case COM s of
        None \<Rightarrow> (0, s)
      | Some sock \<Rightarrow>
          (case await_bytes 4 (TIMEOUT s) sock of
             (False, sock1) \<Rightarrow> (- 1, s\<lparr>COM := Some sock1\<rparr>)
           | (True, sock1) \<Rightarrow>
               (let (v, sock2) = ds_qint32 sock1 in (v, s\<lparr>COM := Some sock2\<rparr>))))"

definition send_Int :: "int \<Rightarrow> RoboDK \<Rightarrow> bool \<times> RoboDK" where
  "send_Int v s =
     (case COM s of
        None \<Rightarrow> (False, s)
      | Some sock \<Rightarrow>
          if \<not> isOpen sock then (False, s)
          else (True, s\<lparr>COM := Some (sock_write (be32 (word_of_int v)) sock)\<rparr>))"

subsection \<open>Status decoding\<close>

text \<open>
  \<open>_check_status\<close> returns its status converted to \<open>bool\<close>: \<open>False\<close> for status 0
  and, through the early \<open>return 0\<close>, for a warning (status 2); \<open>True\<close> for every other
  status. The message line of a warning or an error is printed and dropped.
\<close>

definition check_status :: "RoboDK \<Rightarrow> bool \<times> RoboDK" where
  "check_status s =
     (let (status, s1) = recv_Int s
      in if 0 < status \<and> status < 10
         then (if status = 1 then (status \<noteq> 0, s1)
               else if status = 2 then (let (strproblems, s2) = recv_Line s1 in (False, s2))
               else if status = 3 then (let (strproblems, s2) = recv_Line s1 in (status \<noteq> 0, s2))
               else if status = 9 then (status \<noteq> 0, s1)
               else (status \<noteq> 0, s1))
         else if status = 0 then (status \<noteq> 0, s1)
         else (status \<noteq> 0, s1))"

subsection \<open>Handles\<close>

text \<open>
  An \<open>Item\<close> is the 64-bit identifier \<open>_PTR\<close> and the type tag \<open>_TYPE\<close>
  (\<open>TYPE\<close> alone is reserved syntax, so both fields carry the class name). The link to
  the client (\<open>_RDK\<close>) is the one client state that is passed along.
\<close>

record Item =
  Item_PTR :: "64 word"
  Item_TYPE :: int

text \<open>
  Modelled from the spec: the default arguments of the \<open>Item\<close> constructor are declared
  in the header \<open>robodk_api.h\<close>; identifier 0 is the invalid reference and \<open>-1\<close> the
  unknown type.
\<close>

definition Item_init :: Item where
  "Item_init = \<lparr>Item_PTR = 0, Item_TYPE = - 1\<rparr>"

definition recv_Item :: "RoboDK \<Rightarrow> Item \<times> RoboDK" where
  "recv_Item s =
     (case COM s of
        None \<Rightarrow> (Item_init, s)
      | Some sock \<Rightarrow>
          (let item = Item_init\<lparr>Item_PTR := 0, Item_TYPE := - 1\<rparr>
           in case await_bytes 8 (TIMEOUT s) sock of
                (False, sock1) \<Rightarrow> (item, s\<lparr>COM := Some sock1\<rparr>)
              | (True, sock1) \<Rightarrow>
                  (let (p, sock2) = ds_quint64 sock1;
                       (t, sock3) = ds_qint32 sock2
                   in (item\<lparr>Item_PTR := p, Item_TYPE := t\<rparr>, s\<lparr>COM := Some sock3\<rparr>))))"

definition send_Item :: "Item option \<Rightarrow> RoboDK \<Rightarrow> bool \<times> RoboDK" where
  "send_Item item s =
     (case COM s of
        None \<Rightarrow> (False, s)
      | Some sock \<Rightarrow>
          if \<not> isOpen sock then (False, s)
          else (let ptr = (case item of None \<Rightarrow> 0 | Some it \<Rightarrow> Item_PTR it)
                in (True, s\<lparr>COM := Some (sock_write (be64 ptr) sock)\<rparr>)))"

subsection \<open>Poses\<close>

text \<open>
  \<open>Mat\<close> is a \<open>QMatrix4x4\<close>: four rows of four single-precision components, read and
  written a row (\<open>QVector4D\<close>) at a time. A component is represented by the double it
  converts to, which is what \<open>Get\<close> returns. \<open>Set\<close> stores a double into a float
  component: \<open>fround\<close> is that conversion, a double to the double of the nearest float,
  which C++ performs and this file takes as a parameter. Indices are 0 to 3 in every
  call of the program; the model returns 0 and stores nothing for any other index.
\<close>

datatype QVector4D = QVector4D double double double double

datatype Mat = QMatrix4x4 QVector4D QVector4D QVector4D QVector4D

fun vec_get :: "QVector4D \<Rightarrow> nat \<Rightarrow> double" where
  "vec_get (QVector4D x y z w) j =
     (if j = 0 then x else if j = 1 then y else if j = 2 then z else if j = 3 then w else 0)"

fun vec_set :: "QVector4D \<Rightarrow> nat \<Rightarrow> double \<Rightarrow> QVector4D" where
  "vec_set (QVector4D x y z w) j v =
     (if j = 0 then QVector4D v y z w else if j = 1 then QVector4D x v z w
      else if j = 2 then QVector4D x y v w else if j = 3 then QVector4D x y z v
      else QVector4D x y z w)"

fun row :: "Mat \<Rightarrow> nat \<Rightarrow> QVector4D" where
  "row (QMatrix4x4 r0 r1 r2 r3) i =
     (if i = 0 then r0 else if i = 1 then r1 else if i = 2 then r2 else if i = 3 then r3
      else QVector4D 0 0 0 0)"

fun setRow :: "Mat \<Rightarrow> nat \<Rightarrow> QVector4D \<Rightarrow> Mat" where
  "setRow (QMatrix4x4 r0 r1 r2 r3) i v =
     (if i = 0 then QMatrix4x4 v r1 r2 r3 else if i = 1 then QMatrix4x4 r0 v r2 r3
      else if i = 2 then QMatrix4x4 r0 r1 v r3 else if i = 3 then QMatrix4x4 r0 r1 r2 v
      else QMatrix4x4 r0 r1 r2 r3)"

definition Mat_Set :: "(double \<Rightarrow> double) \<Rightarrow> nat \<Rightarrow> nat \<Rightarrow> double \<Rightarrow> Mat \<Rightarrow> Mat" where
  "Mat_Set fround i j v m = (let rw = row m i; rw' = vec_set rw j (fround v) in setRow m i rw')"

definition Mat_Get :: "Mat \<Rightarrow> nat \<Rightarrow> nat \<Rightarrow> double" where
  "Mat_Get m i j = vec_get (row m i) j"

text \<open>The doubles 1.0 and 0.0, and the default-constructed \<open>Mat\<close>, the identity.\<close>

definition d_one :: double where
  "d_one = 0x3FF0000000000000"

definition d_zero :: double where
  "d_zero = 0"

definition Mat_init :: Mat where
  "Mat_init = QMatrix4x4 (QVector4D d_one d_zero d_zero d_zero)
                         (QVector4D d_zero d_one d_zero d_zero)
                         (QVector4D d_zero d_zero d_one d_zero)
                         (QVector4D d_zero d_zero d_zero d_one)"

text \<open>
  The two nested loops of \<open>_recv_Pose\<close> and of \<open>_send_Pose\<close>: the column index \<open>j\<close>
  in the outer loop, the row index \<open>i\<close> in the inner one.
\<close>

definition recv_Pose_loop :: "(double \<Rightarrow> double) \<Rightarrow> Mat \<times> QTcpSocket \<Rightarrow> Mat \<times> QTcpSocket" where
  "recv_Pose_loop fround =
     fold (\<lambda>j. fold (\<lambda>i (m, sk). let (valuei, sk') = ds_double sk
                                  in (Mat_Set fround i j valuei m, sk'))
                     [0..<4])
          [0..<4]"

definition send_Pose_loop :: "Mat \<Rightarrow> QTcpSocket \<Rightarrow> QTcpSocket" where
  "send_Pose_loop pose =
     fold (\<lambda>j. fold (\<lambda>i. sock_write (be64 (Mat_Get pose i j))) [0..<4]) [0..<4]"

definition recv_Pose :: "(double \<Rightarrow> double) \<Rightarrow> RoboDK \<Rightarrow> Mat \<times> RoboDK" where
  "recv_Pose fround s =
     (let pose = Mat_init
      in case COM s of
           None \<Rightarrow> (pose, s)
         | Some sock \<Rightarrow>
             (case await_bytes (16 * 8) (TIMEOUT s) sock of
                (False, sock1) \<Rightarrow> (pose, s\<lparr>COM := Some sock1\<rparr>)
              | (True, sock1) \<Rightarrow>
                  (let (pose', sock2) = recv_Pose_loop fround (pose, sock1)
                   in (pose', s\<lparr>COM := Some sock2\<rparr>))))"

definition send_Pose :: "Mat \<Rightarrow> RoboDK \<Rightarrow> bool \<times> RoboDK" where
  "send_Pose pose s =
     (case COM s of
        None \<Rightarrow> (False, s)
      | Some sock \<Rightarrow>
          if \<not> isOpen sock then (False, s)
          else (True, s\<lparr>COM := Some (send_Pose_loop pose sock)\<rparr>))"

subsection \<open>Arrays\<close>

text \<open>
  \<open>tJoints\<close> is a fixed array \<open>Values\<close> and the count \<open>nDOFs\<close> of the values in use.
  An array argument is a list. Reading or writing past the end of an array is undefined
  in C++: the model sends the elements that exist and stores nothing out of range.
\<close>

record tJoints =
  Values :: "double list"
  nDOFs :: int

definition send_Array :: "double list \<Rightarrow> int \<Rightarrow> RoboDK \<Rightarrow> bool \<times> RoboDK" where
  "send_Array vals nvalues s =
     (case COM s of
        None \<Rightarrow> (False, s)
      | Some sock \<Rightarrow>
          if \<not> isOpen sock then (False, s)
          else (case send_Int nvalues s of
                  (False, s1) \<Rightarrow> (False, s1)
                | (True, s1) \<Rightarrow>
                    (case COM s1 of
                       None \<Rightarrow> (True, s1)
                     | Some sock1 \<Rightarrow>
                         (True, s1\<lparr>COM := Some
                            (fold (\<lambda>valuei. sock_write (be64 valuei))
                                  (take (nat nvalues) vals) sock1)\<rparr>))))"

definition send_Array_joints :: "tJoints option \<Rightarrow> RoboDK \<Rightarrow> bool \<times> RoboDK" where
  "send_Array_joints jnts s =
     (case jnts of
        None \<Rightarrow> send_Int 0 s
      | Some j \<Rightarrow> send_Array (Values j) (nDOFs j) s)"

definition send_Array_Mat :: "Mat option \<Rightarrow> RoboDK \<Rightarrow> bool \<times> RoboDK" where
  "send_Array_Mat mat s =
     (case mat of
        None \<Rightarrow> send_Int 0 s
      | Some m \<Rightarrow>
          (let m44 = concat (map (\<lambda>c. map (\<lambda>r. Mat_Get m r c) [0..<4]) [0..<4])
           in send_Array m44 16 s))"

text \<open>
  \<open>_recv_Array(values, psize)\<close> returns its result together with the array and the
  integer behind \<open>psize\<close> (\<open>None\<close> is a \<open>NULL\<close> pointer) as it leaves them.
\<close>

definition recv_Array ::
  "double list \<Rightarrow> int option \<Rightarrow> RoboDK \<Rightarrow> bool \<times> double list \<times> int option \<times> RoboDK" where
  "recv_Array vals psize s =
     (let (nvalues, s1) = recv_Int s
      in case COM s1 of
           None \<Rightarrow> (False, vals, psize, s1)
         | Some sock \<Rightarrow>
             if nvalues < 0 then (False, vals, psize, s1)
             else (let psize' = (case psize of None \<Rightarrow> None | Some old \<Rightarrow> Some nvalues)
                   in if nvalues < 0 \<or> nvalues > 50 then (False, vals, psize', s1)
                      else (case await_bytes (nvalues * 8) (TIMEOUT s1) sock of
                              (False, sock1) \<Rightarrow> (False, vals, psize', s1\<lparr>COM := Some sock1\<rparr>)
                            | (True, sock1) \<Rightarrow>
                                (let (vals', sock2) =
                                       fold (\<lambda>i (vs, sk). let (valuei, sk') = ds_double sk
                                                          in (vs[i := valuei], sk'))
                                            [0..<nat nvalues] (vals, sock1)
                                 in (True, vals', psize', s1\<lparr>COM := Some sock2\<rparr>)))))"

definition recv_Array_joints :: "tJoints \<Rightarrow> RoboDK \<Rightarrow> bool \<times> tJoints \<times> RoboDK" where
  "recv_Array_joints jnts s =
     (case recv_Array (Values jnts) (Some (nDOFs jnts)) s of
        (ok, vals, psize, s1) \<Rightarrow>
          (ok, jnts\<lparr>Values := vals, nDOFs := (case psize of None \<Rightarrow> nDOFs jnts | Some n \<Rightarrow> n)\<rparr>, s1))"

section \<open>Connection\<close>

definition disconnect :: "RoboDK \<Rightarrow> RoboDK" where
  "disconnect s = (case COM s of None \<Rightarrow> s | Some sock \<Rightarrow> s\<lparr>COM := None\<rparr>)"

definition waitForConnected :: "int \<Rightarrow> connect_attempt \<Rightarrow> bool" where
  "waitForConnected msecs a =
     (case accept_after a of None \<Rightarrow> False | Some d \<Rightarrow> msecs < 0 \<or> int d \<le> msecs)"

text \<open>
  \<open>_connect\<close> drops any socket, makes a new one and connects it. An attempt when
  nothing is listening (no entry left in \<open>network\<close>) fails like a refused one.
\<close>

definition connect :: "RoboDK \<Rightarrow> bool \<times> RoboDK" where
  "connect s =
     (let s0 = disconnect s;
          a = (case network s0 of [] \<Rightarrow> \<lparr>accept_after = None, replies = []\<rparr> | a # rest \<Rightarrow> a);
          s1 = s0\<lparr>network := tl (network s0)\<rparr>
      in if \<not> waitForConnected (TIMEOUT s1) a then (False, s1\<lparr>COM := None\<rparr>)
         else (let sock = \<lparr>sock_state = ConnectedState, isOpen = True, buffer = [],
                          arrivals = replies a, io_log = []\<rparr>;
                   sock1 = sock_write ROBODK_API_LF (sock_write (toUtf8 ROBODK_API_START_STRING) sock);
                   sock2 = sock_write ROBODK_API_LF (sock_write (toUtf8 ''1 0'') sock1);
                   (ready, sock3) = (if canReadLine sock2 then (True, sock2)
                                     else waitForReadyRead (TIMEOUT s1) sock2)
               in if \<not> ready then (False, s1\<lparr>COM := None\<rparr>)
                  else (let (read, sock4) = readAll sock3
                        in if \<not> prefix ROBODK_API_READY_STRING (fromUtf8 read)
                           then (False, s1\<lparr>COM := None\<rparr>)
                           else (True, s1\<lparr>COM := Some sock4\<rparr>))))"

text \<open>Case-insensitive search for a substring, on ASCII letters.\<close>

definition to_lower :: "char \<Rightarrow> char" where
  "to_lower c = (let n = (of_char c :: nat) in if 65 \<le> n \<and> n \<le> 90 then char_of (n + 32) else c)"

fun contains :: "string \<Rightarrow> string \<Rightarrow> bool" where
  "contains [] pat = (pat = [])"
| "contains (c # cs) pat = (prefix pat (c # cs) \<or> contains cs pat)"

definition contains_ci :: "string \<Rightarrow> string \<Rightarrow> bool" where
  "contains_ci line pat = contains (map to_lower line) (map to_lower pat)"

text \<open>
  The loop of \<open>_connect_smart\<close> over the lines the launched process prints: at the
  first line that contains "Running" it connects once more and returns the result.
\<close>

fun scan_output :: "string list \<Rightarrow> RoboDK \<Rightarrow> bool \<times> RoboDK" where
  "scan_output [] s = (False, s)"
| "scan_output (line # lines) s =
     (if contains_ci line ''Running'' then connect s else scan_output lines s)"

definition connect_smart :: "RoboDK \<Rightarrow> bool \<times> RoboDK" where
  "connect_smart s =
     (case connect s of
        (True, s1) \<Rightarrow> (True, s1)
      | (False, s1) \<Rightarrow>
          (case launches s1 of
             [] \<Rightarrow> scan_output [] (s1\<lparr>PROCESS := 0\<rparr>)
           | (pid, lines) # rest \<Rightarrow> scan_output lines (s1\<lparr>PROCESS := pid, launches := rest\<rparr>)))"

definition check_connection :: "RoboDK \<Rightarrow> bool \<times> RoboDK" where
  "check_connection s = (if connected s then (True, s) else connect_smart s)"

section \<open>Long-running requests\<close>

text \<open>
  \<open>Item::WaitMove(timeout_sec)\<close>; \<open>timeout_ms\<close> is \<open>(int)(timeout_sec * 1000.0)\<close>.
\<close>

definition WaitMove :: "Item \<Rightarrow> int \<Rightarrow> RoboDK \<Rightarrow> RoboDK" where
  "WaitMove this timeout_ms s =
     (let (c, s1) = check_connection s;
          (a, s2) = send_Line ''WaitMove'' s1;
          (b, s3) = send_Item (Some this) s2;
          (st, s4) = check_status s3;
          s5 = s4\<lparr>TIMEOUT := timeout_ms\<rparr>;
          (st', s6) = check_status s5
      in s6\<lparr>TIMEOUT := ROBODK_API_TIMEOUT\<rparr>)"



section \<open>Moves\<close>

text \<open>
  A move either returns or throws the integer 0; what it wrote and read before it threw
  stays written and read. \<open>wait_ms\<close> is the default argument of \<open>WaitMove\<close>, declared
  in the header, in milliseconds.
\<close>

datatype outcome = Returned | Thrown int

definition send_target :: "Item option \<Rightarrow> tJoints option \<Rightarrow> Mat option \<Rightarrow> RoboDK \<Rightarrow> outcome \<times> RoboDK" where
  "send_target target joints mat_target s =
     (if target \<noteq> None
      then (let (a, s1) = send_Int 3 s;
                (b, s2) = send_Array_joints None s1;
                (c, s3) = send_Item target s2
            in (Returned, s3))
      else if joints \<noteq> None
      then (let (a, s1) = send_Int 1 s;
                (b, s2) = send_Array_joints joints s1;
                (c, s3) = send_Item None s2
            in (Returned, s3))
      else if mat_target \<noteq> None
      then (let (a, s1) = send_Int 2 s;
                (b, s2) = send_Array_Mat mat_target s1;
                (c, s3) = send_Item None s2
            in (Returned, s3))
      else (Thrown 0, s))"

definition moveX ::
  "int \<Rightarrow> Item option \<Rightarrow> tJoints option \<Rightarrow> Mat option \<Rightarrow> Item \<Rightarrow> int \<Rightarrow> bool \<Rightarrow> RoboDK
     \<Rightarrow> outcome \<times> RoboDK" where
  "moveX wait_ms target joints mat_target itemrobot movetype blocking s =
     (let s1 = WaitMove itemrobot wait_ms s;
          (a, s2) = send_Line ''MoveX'' s1;
          (b, s3) = send_Int movetype s2
      in case send_target target joints mat_target s3 of
           (Thrown e, s4) \<Rightarrow> (Thrown e, s4)
         | (Returned, s4) \<Rightarrow>
             (let (c, s5) = send_Item (Some itemrobot) s4;
                  (st, s6) = check_status s5
              in if blocking then (Returned, WaitMove itemrobot wait_ms s6)
                 else (Returned, s6)))"

definition moveC ::
  "int \<Rightarrow> Item option \<Rightarrow> tJoints option \<Rightarrow> Mat option
     \<Rightarrow> Item option \<Rightarrow> tJoints option \<Rightarrow> Mat option \<Rightarrow> Item \<Rightarrow> bool \<Rightarrow> RoboDK
     \<Rightarrow> outcome \<times> RoboDK" where
  "moveC wait_ms target1 joints1 mat_target1 target2 joints2 mat_target2 itemrobot blocking s =
     (let s1 = WaitMove itemrobot wait_ms s;
          (a, s2) = send_Line ''MoveC'' s1;
          (b, s3) = send_Int 3 s2
      in case send_target target1 joints1 mat_target1 s3 of
           (Thrown e, s4) \<Rightarrow> (Thrown e, s4)
         | (Returned, s4) \<Rightarrow>
             (case send_target target2 joints2 mat_target2 s4 of
                (Thrown e, s5) \<Rightarrow> (Thrown e, s5)
              | (Returned, s5) \<Rightarrow>
                  (let (c, s6) = send_Item (Some itemrobot) s5;
                       (st, s7) = check_status s6
                   in if blocking then (Returned, WaitMove itemrobot wait_ms s7)
                      else (Returned, s7))))"

section \<open>What the wire shows\<close>

text \<open>
  The history of the client's socket, and whether the link is up: a socket that is
  connected and open, on which every send writes and no call reconnects.
\<close>

definition client_log :: "RoboDK \<Rightarrow> io_event list" where
  "client_log s = (case COM s of None \<Rightarrow> [] | Some sock \<Rightarrow> io_log sock)"

definition link_up :: "RoboDK \<Rightarrow> bool" where
  "link_up s =
     (case COM s of None \<Rightarrow> False | Some sock \<Rightarrow> sock_state sock = ConnectedState \<and> isOpen sock)"

text \<open>
  The 16 doubles of a pose in column-major order (column loop outer, row loop inner), and
  their bytes on the wire.
\<close>

definition pose_doubles :: "Mat \<Rightarrow> double list" where
  "pose_doubles m = concat (map (\<lambda>j. map (\<lambda>i. Mat_Get m i j) [0..<4]) [0..<4])"

definition pose_wire :: "Mat \<Rightarrow> byte list" where
  "pose_wire m = concat (map be64 (pose_doubles m))"

text \<open>
  The writes of one "wait until not moving" request, of one move target (discriminator
  3 for a handle, 1 for joints, 2 for a pose, with a zero count or a zero handle for the
  fields not used), and of one \<open>MoveX\<close> request.
\<close>

definition WaitMove_request :: "Item \<Rightarrow> io_event list" where
  "WaitMove_request robot = [Wr (toUtf8 ''WaitMove''), Wr [LF], Wr (be64 (Item_PTR robot))]"

definition target_request :: "Item option \<Rightarrow> tJoints option \<Rightarrow> Mat option \<Rightarrow> io_event list" where
  "target_request target joints mat_target =
     (case target of
        Some t \<Rightarrow> [Wr (be32 3), Wr (be32 0), Wr (be64 (Item_PTR t))]
      | None \<Rightarrow>
          (case joints of
             Some j \<Rightarrow> [Wr (be32 1), Wr (be32 (word_of_int (nDOFs j)))]
                       @ map (\<lambda>v. Wr (be64 v)) (take (nat (nDOFs j)) (Values j))
                       @ [Wr (be64 0)]
           | None \<Rightarrow>
               (case mat_target of
                  Some m \<Rightarrow> [Wr (be32 2), Wr (be32 16)]
                            @ map (\<lambda>v. Wr (be64 v)) (pose_doubles m)
                            @ [Wr (be64 0)]
                | None \<Rightarrow> [])))"

definition MoveX_request ::
  "int \<Rightarrow> Item option \<Rightarrow> tJoints option \<Rightarrow> Mat option \<Rightarrow> Item \<Rightarrow> io_event list" where
  "MoveX_request movetype target joints mat_target robot =
     [Wr (toUtf8 ''MoveX''), Wr [LF], Wr (be32 (word_of_int movetype))]
     @ target_request target joints mat_target
     @ [Wr (be64 (Item_PTR robot))]"

text \<open>
  \<open>emit evs\<close> appends the events \<open>evs\<close> to the history of the client's socket and
  changes nothing else.
\<close>

definition emit :: "io_event list \<Rightarrow> RoboDK \<Rightarrow> RoboDK" where
  "emit evs s =
     (case COM s of
        None \<Rightarrow> s
      | Some sock \<Rightarrow> s\<lparr>COM := Some (sock\<lparr>io_log := io_log sock @ evs\<rparr>)\<rparr>)"

text \<open>
  A reply of the server to one status decode: the status word and, for the warning and
  error statuses 2 and 3, a message line. \<open>reply_wire\<close> is its bytes on the wire,
  \<open>reply_reads\<close> the reads that consume exactly these bytes (the four bytes of the
  status, then the line up to and including its line feed), and a reply is well formed
  when its message holds no line feed.
\<close>

type_synonym reply = "32 word \<times> byte list"

definition reply_wire :: "reply \<Rightarrow> byte list" where
  "reply_wire r =
     be32 (fst r) @ (if sint (fst r) = 2 \<or> sint (fst r) = 3 then snd r @ [LF] else [])"

definition reply_reads :: "reply \<Rightarrow> io_event list" where
  "reply_reads r =
     Rd (be32 (fst r)) # (if sint (fst r) = 2 \<or> sint (fst r) = 3 then [Rd (snd r @ [LF])] else [])"

definition reply_ok :: "reply \<Rightarrow> bool" where
  "reply_ok r = (LF \<notin> set (snd r))"

section \<open>Example states\<close>

text \<open>
  A client whose socket is \<open>sock\<close>, a connected socket that holds \<open>bs\<close>, a socket
  whose peer answers after five seconds, a joint vector, a server that accepts and sends
  one reply, a client that has no socket yet, a robot handle and a target handle.
\<close>

definition ex_client :: "QTcpSocket \<Rightarrow> RoboDK" where
  "ex_client sock = \<lparr>COM = Some sock, TIMEOUT = 1000, PROCESS = 0, network = [], launches = []\<rparr>"

definition ex_sock :: "byte list \<Rightarrow> QTcpSocket" where
  "ex_sock bs = \<lparr>sock_state = ConnectedState, isOpen = True, buffer = bs,
                 arrivals = [], io_log = []\<rparr>"


definition ex_joints :: tJoints where
  "ex_joints = \<lparr>Values = [d_zero, d_one], nDOFs = 2\<rparr>"

definition ex_server :: "byte list \<Rightarrow> connect_attempt" where
  "ex_server reply = \<lparr>accept_after = Some 1, replies = [(2, reply)]\<rparr>"

definition ex_fresh :: "connect_attempt list \<Rightarrow> RoboDK" where
  "ex_fresh net = \<lparr>COM = None, TIMEOUT = 1000, PROCESS = 0, network = net, launches = []\<rparr>"

text \<open>A conversion to single precision that cuts the 29 low bits of the mantissa.\<close>

definition ex_fround :: "double \<Rightarrow> double" where
  "ex_fround d = push_bit 29 (drop_bit 29 d)"

definition ex_robot :: Item where
  "ex_robot = \<lparr>Item_PTR = 5, Item_TYPE = 2\<rparr>"

definition ex_target :: Item where
  "ex_target = \<lparr>Item_PTR = 7, Item_TYPE = 6\<rparr>"

section \<open>Encoding lemmas\<close>

lemma byte_step:
  fixes w :: "'a::len word"
  shows "push_bit 8 (drop_bit (n + 8) w) OR ucast (ucast (drop_bit n w) :: byte) = drop_bit n w"
proof (rule bit_word_eqI)
  fix k assume k: "k < LENGTH('a)"
  show "bit (push_bit 8 (drop_bit (n + 8) w) OR ucast (ucast (drop_bit n w) :: byte)) k
        = bit (drop_bit n w) k"
  proof (cases "k < 8")
    case True
    with k show ?thesis by (simp add: bit_simps)
  next
    case False
    then have "n + 8 + (k - 8) = n + k" by simp
    with False k show ?thesis by (simp add: bit_simps)
  qed
qed

lemma byte_step0:
  fixes w :: "'a::len word"
  shows "push_bit 8 (drop_bit 8 w) OR ucast (ucast w :: byte) = w"
  using byte_step [of 0 w] by simp

lemma byte_first32: "ucast (ucast (drop_bit 24 w) :: byte) = drop_bit 24 (w :: 32 word)"
  by (rule bit_word_eqI) (auto simp add: bit_simps dest: bit_imp_le_length)

lemma byte_first64: "ucast (ucast (drop_bit 56 w) :: byte) = drop_bit 56 (w :: 64 word)"
  by (rule bit_word_eqI) (auto simp add: bit_simps dest: bit_imp_le_length)

lemma be32_decode [simp]: "be_decode (be32 w) = w"
  using byte_step [of 16 w] byte_step [of 8 w] byte_step0 [of w]
  by (simp add: be_decode_def be32_def byte_first32)

lemma be64_decode [simp]: "be_decode (be64 w) = w"
  using byte_step [of 48 w] byte_step [of 40 w] byte_step [of 32 w] byte_step [of 24 w]
    byte_step [of 16 w] byte_step [of 8 w] byte_step0 [of w]
  by (simp add: be_decode_def be64_def byte_first64)

lemma length_be32 [simp]: "length (be32 w) = 4"
  by (simp add: be32_def)

lemma length_be64 [simp]: "length (be64 w) = 8"
  by (simp add: be64_def)

section \<open>Reading from the buffer\<close>

lemma await_bytes_enough: "n \<le> bytesAvailable sock \<Longrightarrow> await_bytes n ms sock = (True, sock)"
  by (simp add: await_bytes_def)

lemma ds_read_prefix:
  "buffer sock = bs @ rest \<Longrightarrow> length bs = n \<Longrightarrow>
   ds_read n sock = (Some bs, sock\<lparr>buffer := rest, io_log := io_log sock @ [Rd bs]\<rparr>)"
  by (simp add: ds_read_def)

lemma ds_qint32_be32:
  "buffer sock = be32 w @ rest \<Longrightarrow>
   ds_qint32 sock = (sint w, sock\<lparr>buffer := rest, io_log := io_log sock @ [Rd (be32 w)]\<rparr>)"
  by (simp add: ds_qint32_def ds_read_prefix [where bs = "be32 w" and rest = rest])

lemma ds_quint64_be64:
  "buffer sock = be64 w @ rest \<Longrightarrow>
   ds_quint64 sock = (w, sock\<lparr>buffer := rest, io_log := io_log sock @ [Rd (be64 w)]\<rparr>)"
  by (simp add: ds_quint64_def ds_read_prefix [where bs = "be64 w" and rest = rest])

lemma recv_Int_buffered:
  "COM s = Some sock \<Longrightarrow> buffer sock = be32 w @ rest \<Longrightarrow>
   recv_Int s = (sint w, s\<lparr>COM := Some (sock\<lparr>buffer := rest,
                                              io_log := io_log sock @ [Rd (be32 w)]\<rparr>)\<rparr>)"
  by (simp add: recv_Int_def await_bytes_enough bytesAvailable_def ds_qint32_be32)

lemma waitline_loop_ready: "canReadLine sock \<Longrightarrow> waitline_loop ms sock = (True, sock)"
  by (simp add: waitline_loop.simps)

lemma readLine_buffered:
  assumes b: "buffer sock = msg @ LF # rest" and n: "LF \<notin> set msg"
  shows "readLine sock =
           (msg @ [LF], sock\<lparr>buffer := rest, io_log := io_log sock @ [Rd (msg @ [LF])]\<rparr>)"
proof -
  from n have tw: "takeWhile (\<lambda>b. b \<noteq> LF) (msg @ LF # rest) = msg"
    by (induction msg) auto
  show ?thesis
    by (simp add: readLine_def Let_def b tw)
qed

lemma recv_Line_buffered:
  "COM s = Some sock \<Longrightarrow> buffer sock = msg @ LF # rest \<Longrightarrow> LF \<notin> set msg \<Longrightarrow>
   recv_Line s = (fromUtf8 (trimmed (msg @ [LF])),
                  s\<lparr>COM := Some (sock\<lparr>buffer := rest,
                                       io_log := io_log sock @ [Rd (msg @ [LF])]\<rparr>)\<rparr>)"
  by (simp add: recv_Line_def waitline_def waitline_loop_ready canReadLine_def readLine_buffered)

section \<open>Status decoding\<close>

text \<open>
  Claim C1. The status word and a following line are in the buffer. After status 0 the
  call reports success (it returns 0, \<open>False\<close>) and has read the four bytes of the
  status and nothing else: the line is still in the buffer. After status 2 it reports success and has read
  the status and exactly the one line, up to and including its line feed. After status
  3 it reports failure (\<open>True\<close>) and has read the status and exactly the one line. After
  status 1 and status 9 it reports failure and has read the status only. For every
  status other than 2 and 3 the client is left as it was right after the status was read,
  so a line is read only after 2 or 3.
\<close>

theorem check_status_taxonomy:
  assumes "COM s = Some sock" and "buffer sock = be32 code @ msg @ LF # rest"
    and "LF \<notin> set msg"
  shows "(sint code = 0 \<longrightarrow> check_status s =
            (False, s\<lparr>COM := Some (sock\<lparr>buffer := msg @ LF # rest,
                                         io_log := io_log sock @ [Rd (be32 code)]\<rparr>)\<rparr>))
       \<and> (sint code = 2 \<longrightarrow> check_status s =
            (False, s\<lparr>COM := Some (sock\<lparr>buffer := rest,
                        io_log := io_log sock @ [Rd (be32 code), Rd (msg @ [LF])]\<rparr>)\<rparr>))
       \<and> (sint code = 3 \<longrightarrow> check_status s =
            (True, s\<lparr>COM := Some (sock\<lparr>buffer := rest,
                        io_log := io_log sock @ [Rd (be32 code), Rd (msg @ [LF])]\<rparr>)\<rparr>))
       \<and> (sint code = 1 \<or> sint code = 9 \<longrightarrow> check_status s =
            (True, s\<lparr>COM := Some (sock\<lparr>buffer := msg @ LF # rest,
                                        io_log := io_log sock @ [Rd (be32 code)]\<rparr>)\<rparr>))
       \<and> (sint code \<noteq> 2 \<and> sint code \<noteq> 3 \<longrightarrow>
            snd (check_status s) = snd (recv_Int s))"
proof -
  let ?s1 = "s\<lparr>COM := Some (sock\<lparr>buffer := msg @ LF # rest,
                                  io_log := io_log sock @ [Rd (be32 code)]\<rparr>)\<rparr>"
  have r: "recv_Int s = (sint code, ?s1)"
    using assms(1,2) by (rule recv_Int_buffered)
  have l: "recv_Line ?s1 = (fromUtf8 (trimmed (msg @ [LF])),
      s\<lparr>COM := Some (sock\<lparr>buffer := rest,
                          io_log := io_log sock @ [Rd (be32 code), Rd (msg @ [LF])]\<rparr>)\<rparr>)"
    using assms(3) by (simp add: recv_Line_buffered [where msg = msg and rest = rest])
  show ?thesis
    by (auto simp add: check_status_def r l)
qed

theorem check_status_taxonomy_witness:
  "check_status (ex_client (ex_sock [0, 0, 0, 2, 104, 105, 10, 0, 0, 0, 0])) =
     (False, ex_client ((ex_sock [0, 0, 0, 0])\<lparr>io_log := [Rd [0, 0, 0, 2], Rd [104, 105, 10]]\<rparr>))"
  using check_status_taxonomy [of "ex_client (ex_sock [0, 0, 0, 2, 104, 105, 10, 0, 0, 0, 0])"
      "ex_sock [0, 0, 0, 2, 104, 105, 10, 0, 0, 0, 0]" 2 "[104, 105]" "[0, 0, 0, 0]"]
  by (simp add: ex_client_def ex_sock_def be32_def LF_def)

lemma await_bytes_short:
  "bytesAvailable sock < n \<Longrightarrow> bytesAvailable (snd (waitForReadyRead ms sock)) < n \<Longrightarrow>
   await_bytes n ms sock = (False, snd (waitForReadyRead ms sock))"
  by (cases "waitForReadyRead ms sock") (simp add: await_bytes_def)

section \<open>Arrays over the safety ceiling\<close>

lemma recv_Int_nonzero_socket:
  "recv_Int s = (n, s1) \<Longrightarrow> n \<noteq> 0 \<Longrightarrow> \<exists>sock. COM s1 = Some sock"
  by (auto simp: recv_Int_def split: option.splits prod.splits bool.splits)

text \<open>
  Claim C3. When the count that \<open>_recv_Array\<close> reads is above 50, the call returns
  failure, and the client is left exactly as it was when the count had been read: no
  wait for more data and no read of a double follows.
\<close>

theorem recv_Array_rejects_large_count:
  assumes "recv_Int s = (n, s1)" and "50 < n"
  shows "fst (recv_Array vals psize s) = False
       \<and> snd (snd (snd (recv_Array vals psize s))) = s1"
proof -
  from assms obtain sock where "COM s1 = Some sock"
    using recv_Int_nonzero_socket [of s n s1] by auto
  with assms show ?thesis
    by (simp add: recv_Array_def)
qed

theorem recv_Array_rejects_large_count_witness:
  "fst (recv_Array [7, 7] None (ex_client (ex_sock ([0, 0, 0, 51] @ be64 1 @ be64 2)))) = False
   \<and> snd (snd (snd (recv_Array [7, 7] None
                      (ex_client (ex_sock ([0, 0, 0, 51] @ be64 1 @ be64 2))))))
       = ex_client ((ex_sock (be64 1 @ be64 2))\<lparr>io_log := [Rd [0, 0, 0, 51]]\<rparr>)"
proof -
  have r: "recv_Int (ex_client (ex_sock ([0, 0, 0, 51] @ be64 1 @ be64 2))) =
      (51, ex_client ((ex_sock (be64 1 @ be64 2))\<lparr>io_log := [Rd [0, 0, 0, 51]]\<rparr>))"
    using recv_Int_buffered [of "ex_client (ex_sock ([0, 0, 0, 51] @ be64 1 @ be64 2))"
        "ex_sock ([0, 0, 0, 51] @ be64 1 @ be64 2)" 51 "be64 1 @ be64 2"]
    by (simp add: ex_client_def ex_sock_def be32_def)
  show ?thesis
    using recv_Array_rejects_large_count [OF r, of "[7, 7]" None] by simp
qed

text \<open>
  Claim C10. \<open>_recv_Array\<close> stores the count behind \<open>psize\<close> before it checks it:
  with a count \<open>n\<close> above 50 it returns failure, the integer behind \<open>psize\<close> is \<open>n\<close>
  and the array is as it was. Received into a joint vector, the failed call leaves
  \<open>nDOFs = n\<close>, above the ceiling, and \<open>Values\<close> unchanged.
\<close>

theorem recv_Array_size_before_check:
  assumes "recv_Int s = (n, s1)" and "50 < n"
  shows "recv_Array vals (Some old) s = (False, vals, Some n, s1)
       \<and> recv_Array_joints jnts s = (False, jnts\<lparr>nDOFs := n\<rparr>, s1)"
proof -
  from assms obtain sock where "COM s1 = Some sock"
    using recv_Int_nonzero_socket [of s n s1] by auto
  with assms show ?thesis
    by (simp add: recv_Array_def recv_Array_joints_def)
qed

theorem recv_Array_size_before_check_witness:
  "recv_Array_joints \<lparr>Values = [7, 7], nDOFs = 2\<rparr>
       (ex_client (ex_sock ([0, 0, 0, 51] @ be64 1))) =
     (False, \<lparr>Values = [7, 7], nDOFs = 51\<rparr>,
      ex_client ((ex_sock (be64 1))\<lparr>io_log := [Rd [0, 0, 0, 51]]\<rparr>))"
proof -
  have r: "recv_Int (ex_client (ex_sock ([0, 0, 0, 51] @ be64 1))) =
      (51, ex_client ((ex_sock (be64 1))\<lparr>io_log := [Rd [0, 0, 0, 51]]\<rparr>))"
    using recv_Int_buffered [of "ex_client (ex_sock ([0, 0, 0, 51] @ be64 1))"
        "ex_sock ([0, 0, 0, 51] @ be64 1)" 51 "be64 1"]
    by (simp add: ex_client_def ex_sock_def be32_def)
  show ?thesis
    using recv_Array_size_before_check [OF r, of "[7, 7]" 2 "\<lparr>Values = [7, 7], nDOFs = 2\<rparr>"]
    by simp
qed

section \<open>Handles on the wire\<close>

lemma recv_Item_buffered:
  assumes "COM s = Some sock" and "buffer sock = be64 p @ be32 t @ rest"
  shows "recv_Item s = (\<lparr>Item_PTR = p, Item_TYPE = sint t\<rparr>,
      s\<lparr>COM := Some (sock\<lparr>buffer := rest,
                          io_log := io_log sock @ [Rd (be64 p), Rd (be32 t)]\<rparr>)\<rparr>)"
proof -
  have a: "await_bytes 8 (TIMEOUT s) sock = (True, sock)"
    using assms(2) by (simp add: await_bytes_enough bytesAvailable_def)
  have q: "ds_quint64 sock =
      (p, sock\<lparr>buffer := be32 t @ rest, io_log := io_log sock @ [Rd (be64 p)]\<rparr>)"
    using assms(2) by (rule ds_quint64_be64)
  have i: "ds_qint32 (sock\<lparr>buffer := be32 t @ rest, io_log := io_log sock @ [Rd (be64 p)]\<rparr>) =
      (sint t, sock\<lparr>buffer := rest, io_log := io_log sock @ [Rd (be64 p), Rd (be32 t)]\<rparr>)"
    by (simp add: ds_qint32_be32 [where w = t and rest = rest])
  show ?thesis
    by (simp add: recv_Item_def assms(1) a q i Item_init_def)
qed

text \<open>
  Claim C2, as stated, fails: \<open>_recv_Item\<close> reads the type tag from the wire, right
  after the identifier. From the twelve bytes of identifier 5 and tag 2 it returns a
  handle whose tag is 2, not \<open>-1\<close>.
\<close>

theorem received_handle_type_counterexample:
  "Item_TYPE (fst (recv_Item (ex_client (ex_sock [0, 0, 0, 0, 0, 0, 0, 5, 0, 0, 0, 2])))) \<noteq> - 1"
proof -
  have "recv_Item (ex_client (ex_sock [0, 0, 0, 0, 0, 0, 0, 5, 0, 0, 0, 2])) =
     (\<lparr>Item_PTR = 5, Item_TYPE = 2\<rparr>,
      ex_client ((ex_sock [])\<lparr>io_log := [Rd [0, 0, 0, 0, 0, 0, 0, 5], Rd [0, 0, 0, 2]]\<rparr>))"
    using recv_Item_buffered [of "ex_client (ex_sock [0, 0, 0, 0, 0, 0, 0, 5, 0, 0, 0, 2])"
      "ex_sock [0, 0, 0, 0, 0, 0, 0, 5, 0, 0, 0, 2]" 5 2 "[]"]
    by (simp add: ex_client_def ex_sock_def be32_def be64_def)
  then show ?thesis by simp
qed

text \<open>
  Claim C2, amended. \<open>_send_Item\<close> on an open socket writes the eight bytes of the
  identifier and nothing else: the client never sends a type tag. \<open>_recv_Item\<close>, with
  the identifier and a tag in the buffer, reads the eight bytes of the identifier and
  then the four bytes of the tag, and returns the handle with both. When fewer than
  eight bytes are available, before and after its one wait, it returns identifier 0 and
  tag \<open>-1\<close>.
\<close>

theorem handle_wire_format:
  assumes "COM s = Some sock"
  shows "(isOpen sock \<longrightarrow> send_Item (Some it) s =
            (True, s\<lparr>COM := Some (sock\<lparr>io_log := io_log sock @ [Wr (be64 (Item_PTR it))]\<rparr>)\<rparr>))
       \<and> (buffer sock = be64 p @ be32 t @ rest \<longrightarrow> recv_Item s =
            (\<lparr>Item_PTR = p, Item_TYPE = sint t\<rparr>,
             s\<lparr>COM := Some (sock\<lparr>buffer := rest,
                                  io_log := io_log sock @ [Rd (be64 p), Rd (be32 t)]\<rparr>)\<rparr>))
       \<and> (bytesAvailable sock < 8
            \<and> bytesAvailable (snd (waitForReadyRead (TIMEOUT s) sock)) < 8 \<longrightarrow>
          fst (recv_Item s) = \<lparr>Item_PTR = 0, Item_TYPE = - 1\<rparr>)"
proof (intro conjI impI)
  assume "isOpen sock"
  with assms show "send_Item (Some it) s =
      (True, s\<lparr>COM := Some (sock\<lparr>io_log := io_log sock @ [Wr (be64 (Item_PTR it))]\<rparr>)\<rparr>)"
    by (simp add: send_Item_def sock_write_def)
next
  assume "buffer sock = be64 p @ be32 t @ rest"
  with assms show "recv_Item s = (\<lparr>Item_PTR = p, Item_TYPE = sint t\<rparr>,
      s\<lparr>COM := Some (sock\<lparr>buffer := rest,
                           io_log := io_log sock @ [Rd (be64 p), Rd (be32 t)]\<rparr>)\<rparr>)"
    by (rule recv_Item_buffered)
next
  assume "bytesAvailable sock < 8
        \<and> bytesAvailable (snd (waitForReadyRead (TIMEOUT s) sock)) < 8"
  with assms show "fst (recv_Item s) = \<lparr>Item_PTR = 0, Item_TYPE = - 1\<rparr>"
    by (simp add: recv_Item_def await_bytes_short Item_init_def)
qed

theorem handle_wire_format_witness:
  "recv_Item (ex_client (ex_sock [0, 0, 0, 0, 0, 0, 0, 5, 0, 0, 0, 2, 9])) =
     (\<lparr>Item_PTR = 5, Item_TYPE = 2\<rparr>,
      ex_client ((ex_sock [9])\<lparr>io_log := [Rd [0, 0, 0, 0, 0, 0, 0, 5], Rd [0, 0, 0, 2]]\<rparr>))
   \<and> send_Item (Some \<lparr>Item_PTR = 5, Item_TYPE = 2\<rparr>) (ex_client (ex_sock [])) =
     (True, ex_client ((ex_sock [])\<lparr>io_log := [Wr [0, 0, 0, 0, 0, 0, 0, 5]]\<rparr>))"
  using handle_wire_format [of "ex_client (ex_sock [0, 0, 0, 0, 0, 0, 0, 5, 0, 0, 0, 2, 9])"
      "ex_sock [0, 0, 0, 0, 0, 0, 0, 5, 0, 0, 0, 2, 9]" Item_init 5 2 "[9]"]
    handle_wire_format [of "ex_client (ex_sock [])" "ex_sock []" "\<lparr>Item_PTR = 5, Item_TYPE = 2\<rparr>"]
  by (simp add: ex_client_def ex_sock_def be32_def be64_def)

section \<open>The trace of a call on a link that is up\<close>

lemma link_up_COM: "link_up s \<Longrightarrow> \<exists>sock. COM s = Some sock \<and> sock_state sock = ConnectedState \<and> isOpen sock"
  by (auto simp: link_up_def split: option.splits)

lemma send_Line_up:
  "link_up s \<Longrightarrow> link_up (snd (send_Line str s))
     \<and> client_log (snd (send_Line str s)) = client_log s @ [Wr (toUtf8 str), Wr [LF]]"
  by (auto simp: link_up_def send_Line_def client_log_def sock_write_def ROBODK_API_LF_def
      split: option.splits)

lemma send_Int_up:
  "link_up s \<Longrightarrow> link_up (snd (send_Int v s))
     \<and> client_log (snd (send_Int v s)) = client_log s @ [Wr (be32 (word_of_int v))]"
  by (auto simp: link_up_def send_Int_def client_log_def sock_write_def split: option.splits)

lemma send_Item_up:
  "link_up s \<Longrightarrow> link_up (snd (send_Item item s))
     \<and> client_log (snd (send_Item item s)) =
         client_log s @ [Wr (be64 (case item of None \<Rightarrow> 0 | Some it \<Rightarrow> Item_PTR it))]"
  by (auto simp: link_up_def send_Item_def client_log_def sock_write_def split: option.splits)

lemma fold_write_doubles:
  "fold (\<lambda>v. sock_write (be64 v)) vs sock =
     sock\<lparr>io_log := io_log sock @ map (\<lambda>v. Wr (be64 v)) vs\<rparr>"
  by (induction vs arbitrary: sock) (simp_all add: sock_write_def)

lemma send_Array_up:
  "link_up s \<Longrightarrow> link_up (snd (send_Array vals n s))
     \<and> client_log (snd (send_Array vals n s)) =
         client_log s @ Wr (be32 (word_of_int n)) # map (\<lambda>v. Wr (be64 v)) (take (nat n) vals)"
  by (auto simp: link_up_def send_Array_def send_Int_def client_log_def sock_write_def
      fold_write_doubles split: option.splits)

lemma waitForReadyRead_frame:
  "sock_state (snd (waitForReadyRead ms sock)) = sock_state sock
   \<and> isOpen (snd (waitForReadyRead ms sock)) = isOpen sock
   \<and> io_log (snd (waitForReadyRead ms sock)) = io_log sock"
  by (simp add: waitForReadyRead_def split: list.splits prod.splits)

lemma await_bytes_frame:
  "sock_state (snd (await_bytes n ms sock)) = sock_state sock
   \<and> isOpen (snd (await_bytes n ms sock)) = isOpen sock
   \<and> io_log (snd (await_bytes n ms sock)) = io_log sock"
  using waitForReadyRead_frame [of ms sock]
  by (cases "waitForReadyRead ms sock") (simp add: await_bytes_def)

lemma waitline_loop_frame:
  "sock_state (snd (waitline_loop ms sock)) = sock_state sock
   \<and> isOpen (snd (waitline_loop ms sock)) = isOpen sock
   \<and> io_log (snd (waitline_loop ms sock)) = io_log sock"
proof (induction ms sock rule: waitline_loop.induct)
  case (1 msecs sock)
  show ?case
  proof (cases "canReadLine sock")
    case True
    then show ?thesis by (simp add: waitline_loop.simps)
  next
    case False
    obtain ok sock1 where w: "waitForReadyRead msecs sock = (ok, sock1)"
      by (cases "waitForReadyRead msecs sock")
    have f: "sock_state sock1 = sock_state sock \<and> isOpen sock1 = isOpen sock
        \<and> io_log sock1 = io_log sock"
      using waitForReadyRead_frame [of msecs sock] w by simp
    show ?thesis
    proof (cases ok)
      case True
      with \<open>\<not> canReadLine sock\<close> w "1.IH" [of ok sock1] f show ?thesis
        by (simp add: waitline_loop.simps [of msecs sock])
    next
      case False
      with \<open>\<not> canReadLine sock\<close> w f show ?thesis
        by (simp add: waitline_loop.simps [of msecs sock])
    qed
  qed
qed

lemma ds_read_frame:
  "sock_state (snd (ds_read n sock)) = sock_state sock
   \<and> isOpen (snd (ds_read n sock)) = isOpen sock
   \<and> (\<exists>bs. io_log (snd (ds_read n sock)) = io_log sock @ [Rd bs])"
  by (simp add: ds_read_def)

lemma ds_qint32_frame:
  "sock_state (snd (ds_qint32 sock)) = sock_state sock
   \<and> isOpen (snd (ds_qint32 sock)) = isOpen sock
   \<and> (\<exists>bs. io_log (snd (ds_qint32 sock)) = io_log sock @ [Rd bs])"
  using ds_read_frame [of 4 sock]
  by (cases "ds_read 4 sock") (auto simp add: ds_qint32_def split: option.splits)

lemma recv_Int_up:
  assumes "link_up s"
  shows "link_up (snd (recv_Int s))
     \<and> (\<exists>r. list_all is_Rd r \<and> client_log (snd (recv_Int s)) = client_log s @ r)"
proof -
  from assms obtain sock where c: "COM s = Some sock" "sock_state sock = ConnectedState" "isOpen sock"
    using link_up_COM by blast
  obtain ok sock1 where a: "await_bytes 4 (TIMEOUT s) sock = (ok, sock1)"
    by (cases "await_bytes 4 (TIMEOUT s) sock")
  have f1: "sock_state sock1 = ConnectedState \<and> isOpen sock1 \<and> io_log sock1 = io_log sock"
    using await_bytes_frame [of 4 "TIMEOUT s" sock] a c by simp
  show ?thesis
  proof (cases ok)
    case False
    with c a f1 show ?thesis
      by (simp add: recv_Int_def link_up_def client_log_def)
  next
    case True
    obtain v sock2 where d: "ds_qint32 sock1 = (v, sock2)"
      by (cases "ds_qint32 sock1")
    from ds_qint32_frame [of sock1] d f1 obtain bs where
      f2: "sock_state sock2 = ConnectedState" "isOpen sock2" "io_log sock2 = io_log sock @ [Rd bs]"
      by auto
    have "list_all is_Rd [Rd bs]" by simp
    with True c a d f2 show ?thesis
      by (auto simp add: recv_Int_def link_up_def client_log_def)
  qed
qed

lemma recv_Line_up:
  assumes "link_up s"
  shows "link_up (snd (recv_Line s))
     \<and> (\<exists>r. list_all is_Rd r \<and> client_log (snd (recv_Line s)) = client_log s @ r)"
proof -
  from assms obtain sock where c: "COM s = Some sock" "sock_state sock = ConnectedState" "isOpen sock"
    using link_up_COM by blast
  obtain ok sock1 where a: "waitline_loop (TIMEOUT s) sock = (ok, sock1)"
    by (cases "waitline_loop (TIMEOUT s) sock")
  have f1: "sock_state sock1 = ConnectedState \<and> isOpen sock1 \<and> io_log sock1 = io_log sock"
    using waitline_loop_frame [of "TIMEOUT s" sock] a c by simp
  have "list_all is_Rd [Rd x]" for x by simp
  then show ?thesis
    using c a f1
    by (cases ok) (auto simp add: recv_Line_def waitline_def link_up_def client_log_def
        readAll_def readLine_def Let_def)
qed

lemma check_status_up:
  assumes "link_up s"
  shows "link_up (snd (check_status s))
     \<and> (\<exists>r. list_all is_Rd r \<and> client_log (snd (check_status s)) = client_log s @ r)"
proof -
  obtain status s1 where r: "recv_Int s = (status, s1)"
    by (cases "recv_Int s")
  from recv_Int_up [OF assms] r obtain r1 where
    u1: "link_up s1" "list_all is_Rd r1" "client_log s1 = client_log s @ r1"
    by auto
  obtain msg s2 where l: "recv_Line s1 = (msg, s2)"
    by (cases "recv_Line s1")
  from recv_Line_up [OF u1(1)] l obtain r2 where
    u2: "link_up s2" "list_all is_Rd r2" "client_log s2 = client_log s1 @ r2"
    by auto
  have u3: "list_all is_Rd (r1 @ r2)" "client_log s2 = client_log s @ r1 @ r2"
    using u1 u2 by simp_all
  consider "status = 2 \<or> status = 3" | "status \<noteq> 2 \<and> status \<noteq> 3" by blast
  then show ?thesis
  proof cases
    case 1
    then have "snd (check_status s) = s2"
      by (auto simp add: check_status_def r l)
    with u2 u3 show ?thesis by blast
  next
    case 2
    then have "snd (check_status s) = s1"
      by (auto simp add: check_status_def r)
    with u1 show ?thesis by blast
  qed
qed

lemma link_up_TIMEOUT [simp]: "link_up (s\<lparr>TIMEOUT := t\<rparr>) = link_up s"
  by (simp add: link_up_def)

lemma client_log_TIMEOUT [simp]: "client_log (s\<lparr>TIMEOUT := t\<rparr>) = client_log s"
  by (simp add: client_log_def)

lemma check_connection_up: "link_up s \<Longrightarrow> check_connection s = (True, s)"
  by (auto simp add: check_connection_def connected_def link_up_def split: option.splits)

lemma WaitMove_up:
  assumes "link_up s"
  shows "link_up (WaitMove robot ms s)
     \<and> (\<exists>r. list_all is_Rd r
            \<and> client_log (WaitMove robot ms s) = client_log s @ WaitMove_request robot @ r)"
proof -
  obtain a s2 where e2: "send_Line ''WaitMove'' s = (a, s2)"
    by (cases "send_Line ''WaitMove'' s")
  obtain b s3 where e3: "send_Item (Some robot) s2 = (b, s3)"
    by (cases "send_Item (Some robot) s2")
  obtain st s4 where e4: "check_status s3 = (st, s4)"
    by (cases "check_status s3")
  obtain st' s6 where e6: "check_status (s4\<lparr>TIMEOUT := ms\<rparr>) = (st', s6)"
    by (cases "check_status (s4\<lparr>TIMEOUT := ms\<rparr>)")
  have w: "WaitMove robot ms s = s6\<lparr>TIMEOUT := ROBODK_API_TIMEOUT\<rparr>"
    by (simp add: WaitMove_def check_connection_up [OF assms] e2 e3 e4 e6)
  from send_Line_up [OF assms, of "''WaitMove''"] e2
  have u2: "link_up s2" "client_log s2 = client_log s @ [Wr (toUtf8 ''WaitMove''), Wr [LF]]"
    by simp_all
  from send_Item_up [OF u2(1), of "Some robot"] e3
  have u3: "link_up s3" "client_log s3 = client_log s @ WaitMove_request robot"
    by (simp_all add: u2 WaitMove_request_def)
  from check_status_up [OF u3(1)] e4 obtain r1 where
    u4: "link_up s4" "list_all is_Rd r1" "client_log s4 = client_log s3 @ r1"
    by auto
  have "link_up (s4\<lparr>TIMEOUT := ms\<rparr>)" using u4(1) by simp
  from check_status_up [OF this] e6 obtain r2 where
    u6: "link_up s6" "list_all is_Rd r2" "client_log s6 = client_log s4 @ r2"
    by auto
  have "list_all is_Rd (r1 @ r2)" using u4 u6 by simp
  moreover have "client_log (WaitMove robot ms s) = client_log s @ WaitMove_request robot @ r1 @ r2"
    by (simp add: w u6 u4 u3)
  moreover have "link_up (WaitMove robot ms s)" by (simp add: w u6)
  ultimately show ?thesis by blast
qed

lemma length_pose_doubles: "length (pose_doubles m) = 16"
  by (simp add: pose_doubles_def length_concat upt_rec)

lemma send_target_up:
  assumes "link_up s" and "target \<noteq> None \<or> joints \<noteq> None \<or> mat_target \<noteq> None"
  shows "fst (send_target target joints mat_target s) = Returned
     \<and> link_up (snd (send_target target joints mat_target s))
     \<and> client_log (snd (send_target target joints mat_target s)) =
         client_log s @ target_request target joints mat_target"
proof -
  obtain a s1 where e1: "send_Int (if target \<noteq> None then 3 else if joints \<noteq> None then 1 else 2) s = (a, s1)"
    by (cases "send_Int (if target \<noteq> None then 3 else if joints \<noteq> None then 1 else 2) s")
  from send_Int_up [OF assms(1)] e1
  have u1: "link_up s1"
    "client_log s1 = client_log s @ [Wr (be32 (word_of_int (if target \<noteq> None then 3 else if joints \<noteq> None then 1 else 2)))]"
    by (metis snd_conv)+
  show ?thesis
  proof (cases target)
    case (Some t)
    obtain b s2 where e2: "send_Int 0 s1 = (b, s2)" by (cases "send_Int 0 s1")
    from send_Int_up [OF u1(1), of 0] e2
    have u2: "link_up s2" "client_log s2 = client_log s1 @ [Wr (be32 0)]" by simp_all
    obtain c s3 where e3: "send_Item (Some t) s2 = (c, s3)" by (cases "send_Item (Some t) s2")
    from send_Item_up [OF u2(1), of "Some t"] e3
    have u3: "link_up s3" "client_log s3 = client_log s2 @ [Wr (be64 (Item_PTR t))]" by simp_all
    from Some e1 e2 e3 u1 u2 u3 show ?thesis
      by (simp add: send_target_def send_Array_joints_def target_request_def)
  next
    case None
    note tn = None
    show ?thesis
    proof (cases joints)
      case (Some j)
      obtain b s2 where e2: "send_Array (Values j) (nDOFs j) s1 = (b, s2)"
        by (cases "send_Array (Values j) (nDOFs j) s1")
      from send_Array_up [OF u1(1), of "Values j" "nDOFs j"] e2
      have u2: "link_up s2" "client_log s2 = client_log s1 @
          Wr (be32 (word_of_int (nDOFs j))) # map (\<lambda>v. Wr (be64 v)) (take (nat (nDOFs j)) (Values j))"
        by simp_all
      obtain c s3 where e3: "send_Item None s2 = (c, s3)" by (cases "send_Item None s2")
      from send_Item_up [OF u2(1), of None] e3
      have u3: "link_up s3" "client_log s3 = client_log s2 @ [Wr (be64 0)]" by simp_all
      from tn Some e1 e2 e3 u1 u2 u3 show ?thesis
        by (simp add: send_target_def send_Array_joints_def target_request_def)
    next
      case None
      with tn assms(2) obtain m where m: "mat_target = Some m" by auto
      obtain b s2 where e2: "send_Array (pose_doubles m) 16 s1 = (b, s2)"
        by (cases "send_Array (pose_doubles m) 16 s1")
      from send_Array_up [OF u1(1), of "pose_doubles m" 16] e2
      have u2: "link_up s2" "client_log s2 = client_log s1 @
          Wr (be32 16) # map (\<lambda>v. Wr (be64 v)) (pose_doubles m)"
        by (simp_all add: length_pose_doubles)
      obtain c s3 where e3: "send_Item None s2 = (c, s3)" by (cases "send_Item None s2")
      from send_Item_up [OF u2(1), of None] e3
      have u3: "link_up s3" "client_log s3 = client_log s2 @ [Wr (be64 0)]" by simp_all
      from tn None m e1 e2 e3 u1 u2 u3 show ?thesis
        by (simp add: send_target_def send_Array_Mat_def target_request_def pose_doubles_def [symmetric])
    qed
  qed
qed

lemma send_target_none: "send_target None None None s = (Thrown 0, s)"
  by (simp add: send_target_def)

section \<open>Moves and the wait for idle\<close>

lemma link_up_emit [simp]: "link_up (emit evs s) = link_up s"
  by (simp add: link_up_def emit_def split: option.splits)

lemma emit_emit: "emit b (emit a s) = emit (a @ b) s"
  by (simp add: emit_def split: option.splits)

lemma emit_TIMEOUT: "(emit evs s)\<lparr>TIMEOUT := t\<rparr> = emit evs (s\<lparr>TIMEOUT := t\<rparr>)"
  by (simp add: emit_def split: option.splits)

lemma send_Line_emit:
  "link_up s \<Longrightarrow> send_Line str s = (True, emit [Wr (toUtf8 str), Wr [LF]] s)"
  by (auto simp: link_up_def send_Line_def emit_def sock_write_def ROBODK_API_LF_def
      split: option.splits)

lemma send_Int_emit:
  "link_up s \<Longrightarrow> send_Int v s = (True, emit [Wr (be32 (word_of_int v))] s)"
  by (auto simp: link_up_def send_Int_def emit_def sock_write_def split: option.splits)

lemma send_Item_emit:
  "link_up s \<Longrightarrow> send_Item item s =
     (True, emit [Wr (be64 (case item of None \<Rightarrow> 0 | Some it \<Rightarrow> Item_PTR it))] s)"
  by (auto simp: link_up_def send_Item_def emit_def sock_write_def split: option.splits)

lemma send_Array_emit:
  "link_up s \<Longrightarrow> send_Array vals n s =
     (True, emit (Wr (be32 (word_of_int n)) # map (\<lambda>v. Wr (be64 v)) (take (nat n) vals)) s)"
  by (auto simp: link_up_def send_Array_def send_Int_def emit_def sock_write_def
      fold_write_doubles split: option.splits)

lemma send_target_emit:
  assumes "link_up s" and "target \<noteq> None \<or> joints \<noteq> None \<or> mat_target \<noteq> None"
  shows "send_target target joints mat_target s =
           (Returned, emit (target_request target joints mat_target) s)"
proof (cases target)
  case (Some t)
  with assms(1) show ?thesis
    by (simp add: send_target_def send_Array_joints_def send_Int_emit send_Item_emit
        emit_emit target_request_def)
next
  case None
  note tn = None
  show ?thesis
  proof (cases joints)
    case (Some j)
    with tn assms(1) show ?thesis
      by (simp add: send_target_def send_Array_joints_def send_Int_emit send_Item_emit
          send_Array_emit emit_emit target_request_def)
  next
    case None
    with tn assms(2) obtain m where m: "mat_target = Some m" by auto
    have "take 16 (pose_doubles m) = pose_doubles m"
      by (simp add: length_pose_doubles)
    with tn None m assms(1) show ?thesis
      by (simp add: send_target_def send_Array_Mat_def send_Int_emit send_Item_emit
          send_Array_emit emit_emit target_request_def pose_doubles_def [symmetric])
  qed
qed

lemma check_status_link_up: "link_up s \<Longrightarrow> link_up (snd (check_status s))"
  using check_status_up by blast

lemma WaitMove_emit:
  assumes "link_up s"
  shows "WaitMove robot ms s =
     (snd (check_status ((snd (check_status (emit (WaitMove_request robot) s)))\<lparr>TIMEOUT := ms\<rparr>)))
       \<lparr>TIMEOUT := ROBODK_API_TIMEOUT\<rparr>"
  using assms
  by (simp add: WaitMove_def check_connection_up send_Line_emit send_Item_emit emit_emit
      WaitMove_request_def split: prod.splits)

lemma WaitMove_link_up: "link_up s \<Longrightarrow> link_up (WaitMove robot ms s)"
  using WaitMove_up by blast

lemma moveX_emit:
  assumes "link_up s" and "target \<noteq> None \<or> joints \<noteq> None \<or> mat_target \<noteq> None"
  shows "moveX wait_ms target joints mat_target robot movetype blocking s =
     (Returned,
      if blocking
      then WaitMove robot wait_ms (snd (check_status
             (emit (MoveX_request movetype target joints mat_target robot)
                   (WaitMove robot wait_ms s))))
      else snd (check_status
             (emit (MoveX_request movetype target joints mat_target robot)
                   (WaitMove robot wait_ms s))))"
proof -
  have u: "link_up (WaitMove robot wait_ms s)"
    using assms(1) by (rule WaitMove_link_up)
  show ?thesis
    using u assms(2)
    by (simp add: moveX_def send_Line_emit send_Int_emit send_target_emit send_Item_emit
        emit_emit MoveX_request_def split: prod.splits)
qed

lemma check_status_reply:
  assumes c: "COM s = Some sock" and b: "buffer sock = reply_wire r @ rest" and ok: "reply_ok r"
  shows "snd (check_status s) =
           s\<lparr>COM := Some (sock\<lparr>buffer := rest, io_log := io_log sock @ reply_reads r\<rparr>)\<rparr>"
proof -
  obtain code msg where r: "r = (code, msg)" by (cases r)
  show ?thesis
  proof (cases "sint code = 2 \<or> sint code = 3")
    case True
    let ?s1 = "s\<lparr>COM := Some (sock\<lparr>buffer := msg @ LF # rest,
                                    io_log := io_log sock @ [Rd (be32 code)]\<rparr>)\<rparr>"
    have b': "buffer sock = be32 code @ msg @ LF # rest"
      using b True by (simp add: r reply_wire_def)
    have ri: "recv_Int s = (sint code, ?s1)"
      using c b' by (rule recv_Int_buffered)
    have rl: "recv_Line ?s1 = (fromUtf8 (trimmed (msg @ [LF])),
        s\<lparr>COM := Some (sock\<lparr>buffer := rest,
                            io_log := io_log sock @ [Rd (be32 code), Rd (msg @ [LF])]\<rparr>)\<rparr>)"
      using ok by (simp add: r reply_ok_def recv_Line_buffered [where msg = msg and rest = rest])
    from True show ?thesis
      by (auto simp add: check_status_def ri rl r reply_reads_def)
  next
    case False
    have b': "buffer sock = be32 code @ rest"
      using b False by (simp add: r reply_wire_def)
    have ri: "recv_Int s = (sint code,
        s\<lparr>COM := Some (sock\<lparr>buffer := rest, io_log := io_log sock @ [Rd (be32 code)]\<rparr>)\<rparr>)"
      using c b' by (rule recv_Int_buffered)
    from False show ?thesis
      by (auto simp add: check_status_def ri r reply_reads_def)
  qed
qed

lemma WaitMove_replies:
  assumes c: "COM s = Some sock" and u: "sock_state sock = ConnectedState" "isOpen sock"
    and b: "buffer sock = reply_wire a1 @ reply_wire a2 @ rest"
    and ok: "reply_ok a1" "reply_ok a2"
  shows "WaitMove robot ms s =
     s\<lparr>COM := Some (sock\<lparr>buffer := rest,
            io_log := io_log sock @ WaitMove_request robot @ reply_reads a1 @ reply_reads a2\<rparr>),
        TIMEOUT := ROBODK_API_TIMEOUT\<rparr>"
proof -
  have l: "link_up s" using c u by (simp add: link_up_def)
  let ?k1 = "sock\<lparr>io_log := io_log sock @ WaitMove_request robot\<rparr>"
  have e: "emit (WaitMove_request robot) s = s\<lparr>COM := Some ?k1\<rparr>"
    using c by (simp add: emit_def)
  let ?k2 = "sock\<lparr>buffer := reply_wire a2 @ rest,
                  io_log := io_log sock @ WaitMove_request robot @ reply_reads a1\<rparr>"
  have s1: "snd (check_status (s\<lparr>COM := Some ?k1\<rparr>)) = s\<lparr>COM := Some ?k2\<rparr>"
    using check_status_reply [of "s\<lparr>COM := Some ?k1\<rparr>" ?k1 a1 "reply_wire a2 @ rest"] b ok(1)
    by simp
  let ?k3 = "sock\<lparr>buffer := rest,
                  io_log := io_log sock @ WaitMove_request robot @ reply_reads a1 @ reply_reads a2\<rparr>"
  have s2: "snd (check_status (s\<lparr>COM := Some ?k2, TIMEOUT := ms\<rparr>))
      = s\<lparr>COM := Some ?k3, TIMEOUT := ms\<rparr>"
    using check_status_reply [of "s\<lparr>COM := Some ?k2, TIMEOUT := ms\<rparr>" ?k2 a2 rest] ok(2)
    by simp
  show ?thesis
    by (simp add: WaitMove_emit [OF l] e s1 s2)
qed


lemma status_after_move:
  assumes c: "COM s = Some sock" and u: "sock_state sock = ConnectedState" "isOpen sock"
    and b: "buffer sock = reply_wire wa @ reply_wire wb @ reply_wire mv @ tail"
    and ok: "reply_ok wa" "reply_ok wb" "reply_ok mv"
  shows "snd (check_status (emit req (WaitMove robot wait_ms s))) =
     s\<lparr>COM := Some (sock\<lparr>buffer := tail,
            io_log := io_log sock @ WaitMove_request robot @ reply_reads wa @ reply_reads wb
                      @ req @ reply_reads mv\<rparr>),
        TIMEOUT := ROBODK_API_TIMEOUT\<rparr>"
proof -
  let ?k3 = "sock\<lparr>buffer := reply_wire mv @ tail,
      io_log := io_log sock @ WaitMove_request robot @ reply_reads wa @ reply_reads wb\<rparr>"
  have w1: "WaitMove robot wait_ms s = s\<lparr>COM := Some ?k3, TIMEOUT := ROBODK_API_TIMEOUT\<rparr>"
    using WaitMove_replies [OF c u, of wa wb "reply_wire mv @ tail" robot wait_ms] b ok
    by simp
  let ?k4 = "sock\<lparr>buffer := reply_wire mv @ tail,
      io_log := io_log sock @ WaitMove_request robot @ reply_reads wa @ reply_reads wb @ req\<rparr>"
  have e: "emit req (s\<lparr>COM := Some ?k3, TIMEOUT := ROBODK_API_TIMEOUT\<rparr>)
           = s\<lparr>COM := Some ?k4, TIMEOUT := ROBODK_API_TIMEOUT\<rparr>"
    by (simp add: emit_def)
  have st: "snd (check_status (s\<lparr>COM := Some ?k4, TIMEOUT := ROBODK_API_TIMEOUT\<rparr>))
           = s\<lparr>COM := Some (sock\<lparr>buffer := tail,
                io_log := io_log sock @ WaitMove_request robot @ reply_reads wa @ reply_reads wb
                          @ req @ reply_reads mv\<rparr>),
                TIMEOUT := ROBODK_API_TIMEOUT\<rparr>"
    using check_status_reply [of "s\<lparr>COM := Some ?k4, TIMEOUT := ROBODK_API_TIMEOUT\<rparr>"
        ?k4 mv tail] ok(3)
    by simp
  show ?thesis
    by (simp only: w1 e st)
qed

text \<open>
  Claim C4. The socket is connected and open and the move has a target. Then the move
  returns, and the client it leaves is this: first one wait exchange (\<open>WaitMove\<close>),
  then the \<open>MoveX\<close> request written and the move's status decoded, and then, for a
  blocking move, one more wait exchange run on the client as the status decode left it,
  and for a non-blocking move nothing more. A wait exchange is the \<open>WaitMove\<close> request
  written, one status decoded, and a second status decoded under the raised timeout.

  With the replies in the buffer the history of the socket is exact. Let the buffer hold
  the two replies of the first wait, the reply to the move and, for a blocking move, the
  two replies of the second wait, followed by \<open>rest\<close>. The move appends to the history,
  in this order: the \<open>WaitMove\<close> request, the reads of its two replies, the \<open>MoveX\<close>
  request, the reads of the move's reply and then, only when blocking, the \<open>WaitMove\<close>
  request again and the reads of its two replies. It leaves exactly \<open>rest\<close> in the
  buffer: a non-blocking move reads nothing after the move's status.
\<close>

theorem moveX_wait_exchanges:
  assumes c: "COM s = Some sock" and u: "sock_state sock = ConnectedState" "isOpen sock"
    and tg: "target \<noteq> None \<or> joints \<noteq> None \<or> mat_target \<noteq> None"
  shows "moveX wait_ms target joints mat_target robot movetype blocking s =
           (Returned,
            if blocking
            then WaitMove robot wait_ms (snd (check_status
                   (emit (MoveX_request movetype target joints mat_target robot)
                         (WaitMove robot wait_ms s))))
            else snd (check_status
                   (emit (MoveX_request movetype target joints mat_target robot)
                         (WaitMove robot wait_ms s))))
       \<and> WaitMove robot wait_ms s =
           (snd (check_status ((snd (check_status (emit (WaitMove_request robot) s)))
                                 \<lparr>TIMEOUT := wait_ms\<rparr>)))\<lparr>TIMEOUT := ROBODK_API_TIMEOUT\<rparr>
       \<and> (buffer sock = reply_wire wa @ reply_wire wb @ reply_wire mv
                          @ (if blocking then reply_wire wc @ reply_wire wd else []) @ rest
            \<and> reply_ok wa \<and> reply_ok wb \<and> reply_ok mv
            \<and> (blocking \<longrightarrow> reply_ok wc \<and> reply_ok wd) \<longrightarrow>
          moveX wait_ms target joints mat_target robot movetype blocking s =
            (Returned,
             s\<lparr>COM := Some (sock\<lparr>buffer := rest,
                   io_log := io_log sock
                     @ WaitMove_request robot @ reply_reads wa @ reply_reads wb
                     @ MoveX_request movetype target joints mat_target robot @ reply_reads mv
                     @ (if blocking
                        then WaitMove_request robot @ reply_reads wc @ reply_reads wd
                        else [])\<rparr>),
               TIMEOUT := ROBODK_API_TIMEOUT\<rparr>))"
proof -
  have l: "link_up s" using c u by (simp add: link_up_def)
  note G1 = moveX_emit [OF l tg, of wait_ms robot movetype blocking]
  note G2 = WaitMove_emit [OF l, of robot wait_ms]
  let ?req = "MoveX_request movetype target joints mat_target robot"
  have C: "moveX wait_ms target joints mat_target robot movetype blocking s =
            (Returned,
             s\<lparr>COM := Some (sock\<lparr>buffer := rest,
                   io_log := io_log sock
                     @ WaitMove_request robot @ reply_reads wa @ reply_reads wb
                     @ ?req @ reply_reads mv
                     @ (if blocking
                        then WaitMove_request robot @ reply_reads wc @ reply_reads wd
                        else [])\<rparr>),
               TIMEOUT := ROBODK_API_TIMEOUT\<rparr>)"
    if h: "buffer sock = reply_wire wa @ reply_wire wb @ reply_wire mv
                          @ (if blocking then reply_wire wc @ reply_wire wd else []) @ rest
            \<and> reply_ok wa \<and> reply_ok wb \<and> reply_ok mv
            \<and> (blocking \<longrightarrow> reply_ok wc \<and> reply_ok wd)"
  proof (cases blocking)
    case False
    with h have b: "buffer sock = reply_wire wa @ reply_wire wb @ reply_wire mv @ rest"
      by simp
    from h have ok: "reply_ok wa" "reply_ok wb" "reply_ok mv" by simp_all
    from False G1 status_after_move [OF c u b ok, of ?req robot wait_ms]
    show ?thesis by simp
  next
    case True
    let ?tail = "reply_wire wc @ reply_wire wd @ rest"
    from True h have b: "buffer sock = reply_wire wa @ reply_wire wb @ reply_wire mv @ ?tail"
      by simp
    from h have ok: "reply_ok wa" "reply_ok wb" "reply_ok mv" by simp_all
    from True h have ok2: "reply_ok wc" "reply_ok wd" by simp_all
    let ?k5 = "sock\<lparr>buffer := ?tail,
        io_log := io_log sock @ WaitMove_request robot @ reply_reads wa @ reply_reads wb
                  @ ?req @ reply_reads mv\<rparr>"
    note m6 = status_after_move [OF c u b ok, of ?req robot wait_ms]
    have w2: "WaitMove robot wait_ms (s\<lparr>COM := Some ?k5, TIMEOUT := ROBODK_API_TIMEOUT\<rparr>)
        = s\<lparr>COM := Some (sock\<lparr>buffer := rest,
                 io_log := io_log sock
                   @ WaitMove_request robot @ reply_reads wa @ reply_reads wb
                   @ ?req @ reply_reads mv
                   @ WaitMove_request robot @ reply_reads wc @ reply_reads wd\<rparr>),
             TIMEOUT := ROBODK_API_TIMEOUT\<rparr>"
      using WaitMove_replies [of "s\<lparr>COM := Some ?k5, TIMEOUT := ROBODK_API_TIMEOUT\<rparr>"
          ?k5 wc wd rest robot wait_ms] u ok2
      by simp
    have "moveX wait_ms target joints mat_target robot movetype blocking s =
        (Returned, WaitMove robot wait_ms (s\<lparr>COM := Some ?k5, TIMEOUT := ROBODK_API_TIMEOUT\<rparr>))"
      using G1 True by (simp only: m6 if_True)
    with True show ?thesis by (simp only: w2 if_True)
  qed
  from G1 G2 C show ?thesis by blast
qed

text \<open>
  A blocking move to a joint target, evaluated. The buffer holds the two status words of
  the first wait, a warning and its line for the move, and the two status words of the
  second wait.
\<close>

lemma moveX_blocking_example:
  "moveX 300000 None (Some ex_joints) None ex_robot 2 True
       (ex_client (ex_sock [0, 0, 0, 0, 0, 0, 0, 0, 0, 0, 0, 2, 104, 105, 10,
                            0, 0, 0, 0, 0, 0, 0, 0])) =
     (Returned, ex_client ((ex_sock [])\<lparr>io_log :=
        [Wr (toUtf8 ''WaitMove''), Wr [LF], Wr (be64 5), Rd [0, 0, 0, 0], Rd [0, 0, 0, 0],
         Wr (toUtf8 ''MoveX''), Wr [LF], Wr (be32 2), Wr (be32 1), Wr (be32 2),
         Wr (be64 d_zero), Wr (be64 d_one), Wr (be64 0), Wr (be64 5),
         Rd [0, 0, 0, 2], Rd [104, 105, 10],
         Wr (toUtf8 ''WaitMove''), Wr [LF], Wr (be64 5), Rd [0, 0, 0, 0], Rd [0, 0, 0, 0]]\<rparr>))"
  by (simp add: moveX_def WaitMove_def check_connection_def connected_def ex_client_def
      ex_robot_def ex_joints_def ex_sock_def send_Line_def send_Item_def send_Int_def
      send_target_def send_Array_joints_def send_Array_def check_status_def recv_Int_def
      recv_Line_def waitline_def waitline_loop.simps canReadLine_def readLine_def
      await_bytes_def bytesAvailable_def ds_qint32_def ds_read_def sock_write_def
      ROBODK_API_LF_def ROBODK_API_TIMEOUT_def be_decode_def LF_def Let_def)

theorem moveX_wait_exchanges_witness:
  "moveX 300000 None (Some ex_joints) None ex_robot 2 True
       (ex_client (ex_sock [0, 0, 0, 0, 0, 0, 0, 0, 0, 0, 0, 2, 104, 105, 10,
                            0, 0, 0, 0, 0, 0, 0, 0])) =
     (Returned, ex_client ((ex_sock [])\<lparr>io_log :=
        WaitMove_request ex_robot @ [Rd [0, 0, 0, 0], Rd [0, 0, 0, 0]]
        @ MoveX_request 2 None (Some ex_joints) None ex_robot
        @ [Rd [0, 0, 0, 2], Rd [104, 105, 10]]
        @ WaitMove_request ex_robot @ [Rd [0, 0, 0, 0], Rd [0, 0, 0, 0]]\<rparr>))
   \<and> moveX 300000 None (Some ex_joints) None ex_robot 2 False
       (ex_client (ex_sock [0, 0, 0, 0, 0, 0, 0, 0, 0, 0, 0, 2, 104, 105, 10,
                            0, 0, 0, 0, 0, 0, 0, 0])) =
     (Returned, ex_client ((ex_sock [0, 0, 0, 0, 0, 0, 0, 0])\<lparr>io_log :=
        WaitMove_request ex_robot @ [Rd [0, 0, 0, 0], Rd [0, 0, 0, 0]]
        @ MoveX_request 2 None (Some ex_joints) None ex_robot
        @ [Rd [0, 0, 0, 2], Rd [104, 105, 10]]\<rparr>))"
proof -
  let ?sock = "ex_sock [0, 0, 0, 0, 0, 0, 0, 0, 0, 0, 0, 2, 104, 105, 10,
                        0, 0, 0, 0, 0, 0, 0, 0]"
  have c: "COM (ex_client ?sock) = Some ?sock" "sock_state ?sock = ConnectedState"
      "isOpen ?sock"
    by (simp_all add: ex_client_def ex_sock_def)
  have t: "(None :: Item option) \<noteq> None \<or> Some ex_joints \<noteq> None \<or> (None :: Mat option) \<noteq> None"
    by simp
  note A = moveX_wait_exchanges [OF c t, where wa = "(0, [])" and wb = "(0, [])"
      and mv = "(2, [104, 105])" and blocking = True and wc = "(0, [])" and wd = "(0, [])"
      and rest = "[]" and wait_ms = 300000 and robot = ex_robot and movetype = 2,
      THEN conjunct2, THEN conjunct2]
  note B = moveX_wait_exchanges [OF c t, where wa = "(0, [])" and wb = "(0, [])"
      and mv = "(2, [104, 105])" and blocking = False and wc = "(0, [])" and wd = "(0, [])"
      and rest = "[0, 0, 0, 0, 0, 0, 0, 0]" and wait_ms = 300000 and robot = ex_robot
      and movetype = 2, THEN conjunct2, THEN conjunct2]
  have a: "moveX 300000 None (Some ex_joints) None ex_robot 2 True (ex_client ?sock) =
     (Returned, ex_client ((ex_sock [])\<lparr>io_log :=
        WaitMove_request ex_robot @ [Rd [0, 0, 0, 0], Rd [0, 0, 0, 0]]
        @ MoveX_request 2 None (Some ex_joints) None ex_robot
        @ [Rd [0, 0, 0, 2], Rd [104, 105, 10]]
        @ WaitMove_request ex_robot @ [Rd [0, 0, 0, 0], Rd [0, 0, 0, 0]]\<rparr>))"
    using A
    by (simp add: reply_wire_def reply_reads_def reply_ok_def be32_def LF_def ex_client_def
        ex_sock_def ROBODK_API_TIMEOUT_def)
  have b: "moveX 300000 None (Some ex_joints) None ex_robot 2 False (ex_client ?sock) =
     (Returned, ex_client ((ex_sock [0, 0, 0, 0, 0, 0, 0, 0])\<lparr>io_log :=
        WaitMove_request ex_robot @ [Rd [0, 0, 0, 0], Rd [0, 0, 0, 0]]
        @ MoveX_request 2 None (Some ex_joints) None ex_robot
        @ [Rd [0, 0, 0, 2], Rd [104, 105, 10]]\<rparr>))"
    using B
    by (simp add: reply_wire_def reply_reads_def reply_ok_def be32_def LF_def ex_client_def
        ex_sock_def ROBODK_API_TIMEOUT_def)
  from a b show ?thesis by simp
qed

section \<open>A move without a target\<close>

text \<open>
  Claim C5, as stated, fails: with no handle, no joints and no pose, \<open>_moveX\<close> throws
  only after it has written the command line \<open>MoveX\<close> and the move type. Here the two
  status words of the leading wait exchange are in the buffer.
\<close>

theorem move_without_target_counterexample:
  "moveX 300000 None None None ex_robot 1 False
       (ex_client (ex_sock [0, 0, 0, 0, 0, 0, 0, 0])) =
     (Thrown 0, ex_client ((ex_sock [])\<lparr>io_log :=
        [Wr (toUtf8 ''WaitMove''), Wr [LF], Wr (be64 5), Rd [0, 0, 0, 0], Rd [0, 0, 0, 0],
         Wr (toUtf8 ''MoveX''), Wr [LF], Wr (be32 1)]\<rparr>))"
  by (simp add: moveX_def WaitMove_def check_connection_def connected_def ex_client_def ex_robot_def
      ex_sock_def send_Line_def send_Item_def send_Int_def send_target_def check_status_def
      recv_Int_def await_bytes_def bytesAvailable_def ds_qint32_def ds_read_def
      sock_write_def ROBODK_API_LF_def ROBODK_API_TIMEOUT_def be_decode_def)

text \<open>
  Claim C5, amended. On a link that is up, a move without a target throws the integer 0:
  the target, the robot handle and everything after them are not written, no status is
  read and no wait follows, blocking or not. What was written before the throw stays
  written: the leading \<open>WaitMove\<close> exchange, the command line and the integer after
  it; and, in \<open>_moveC\<close> when it is the second target that is missing, the first
  target.
\<close>

theorem move_without_target_throws:
  assumes "link_up s"
  shows "\<exists>r1. list_all is_Rd r1
      \<and> fst (moveX wait_ms None None None robot movetype blocking s) = Thrown 0
      \<and> client_log (snd (moveX wait_ms None None None robot movetype blocking s)) =
          client_log s @ WaitMove_request robot @ r1
          @ [Wr (toUtf8 ''MoveX''), Wr [LF], Wr (be32 (word_of_int movetype))]
      \<and> fst (moveC wait_ms None None None targetB jointsB matB robot blocking s) = Thrown 0
      \<and> client_log (snd (moveC wait_ms None None None targetB jointsB matB robot blocking s)) =
          client_log s @ WaitMove_request robot @ r1
          @ [Wr (toUtf8 ''MoveC''), Wr [LF], Wr (be32 3)]
      \<and> (targetA \<noteq> None \<or> jointsA \<noteq> None \<or> matA \<noteq> None \<longrightarrow>
          fst (moveC wait_ms targetA jointsA matA None None None robot blocking s) = Thrown 0
          \<and> client_log (snd (moveC wait_ms targetA jointsA matA None None None robot blocking s)) =
              client_log s @ WaitMove_request robot @ r1
              @ [Wr (toUtf8 ''MoveC''), Wr [LF], Wr (be32 3)]
              @ target_request targetA jointsA matA)"
proof -
  let ?s1 = "WaitMove robot wait_ms s"
  from WaitMove_up [OF assms(1), of robot wait_ms] obtain r1 where
    u1: "link_up ?s1" "list_all is_Rd r1"
        "client_log ?s1 = client_log s @ WaitMove_request robot @ r1"
    by blast
  have x: "fst (moveX wait_ms None None None robot movetype blocking s) = Thrown 0
      \<and> client_log (snd (moveX wait_ms None None None robot movetype blocking s)) =
          client_log s @ WaitMove_request robot @ r1
          @ [Wr (toUtf8 ''MoveX''), Wr [LF], Wr (be32 (word_of_int movetype))]"
  proof -
    obtain a s2 where e2: "send_Line ''MoveX'' ?s1 = (a, s2)"
      by (cases "send_Line ''MoveX'' ?s1")
    from send_Line_up [OF u1(1), of "''MoveX''"] e2
    have u2: "link_up s2" "client_log s2 = client_log ?s1 @ [Wr (toUtf8 ''MoveX''), Wr [LF]]"
      by simp_all
    obtain b s3 where e3: "send_Int movetype s2 = (b, s3)"
      by (cases "send_Int movetype s2")
    from send_Int_up [OF u2(1), of movetype] e3
    have u3: "client_log s3 = client_log s2 @ [Wr (be32 (word_of_int movetype))]"
      by simp
    have "moveX wait_ms None None None robot movetype blocking s = (Thrown 0, s3)"
      by (simp add: moveX_def e2 e3 send_target_none)
    then show ?thesis by (simp add: u3 u2 u1)
  qed
  obtain a s2 where e2: "send_Line ''MoveC'' ?s1 = (a, s2)"
    by (cases "send_Line ''MoveC'' ?s1")
  from send_Line_up [OF u1(1), of "''MoveC''"] e2
  have u2: "link_up s2" "client_log s2 = client_log ?s1 @ [Wr (toUtf8 ''MoveC''), Wr [LF]]"
    by simp_all
  obtain b s3 where e3: "send_Int 3 s2 = (b, s3)"
    by (cases "send_Int 3 s2")
  from send_Int_up [OF u2(1), of 3] e3
  have u3: "link_up s3" "client_log s3 = client_log s2 @ [Wr (be32 3)]"
    by simp_all
  have c1: "fst (moveC wait_ms None None None targetB jointsB matB robot blocking s) = Thrown 0
      \<and> client_log (snd (moveC wait_ms None None None targetB jointsB matB robot blocking s)) =
          client_log s @ WaitMove_request robot @ r1
          @ [Wr (toUtf8 ''MoveC''), Wr [LF], Wr (be32 3)]"
  proof -
    have "moveC wait_ms None None None targetB jointsB matB robot blocking s = (Thrown 0, s3)"
      by (simp add: moveC_def e2 e3 send_target_none)
    then show ?thesis by (simp add: u3 u2 u1)
  qed
  have c2: "targetA \<noteq> None \<or> jointsA \<noteq> None \<or> matA \<noteq> None \<longrightarrow>
          fst (moveC wait_ms targetA jointsA matA None None None robot blocking s) = Thrown 0
          \<and> client_log (snd (moveC wait_ms targetA jointsA matA None None None robot blocking s)) =
              client_log s @ WaitMove_request robot @ r1
              @ [Wr (toUtf8 ''MoveC''), Wr [LF], Wr (be32 3)]
              @ target_request targetA jointsA matA"
  proof
    assume t: "targetA \<noteq> None \<or> jointsA \<noteq> None \<or> matA \<noteq> None"
    obtain o4 s4 where e4: "send_target targetA jointsA matA s3 = (o4, s4)"
      by (cases "send_target targetA jointsA matA s3")
    from send_target_up [OF u3(1) t] e4
    have u4: "o4 = Returned"
        "client_log s4 = client_log s3 @ target_request targetA jointsA matA"
      by simp_all
    have "moveC wait_ms targetA jointsA matA None None None robot blocking s = (Thrown 0, s4)"
      by (simp add: moveC_def e2 e3 e4 u4(1) send_target_none)
    then show "fst (moveC wait_ms targetA jointsA matA None None None robot blocking s) = Thrown 0
          \<and> client_log (snd (moveC wait_ms targetA jointsA matA None None None robot blocking s)) =
              client_log s @ WaitMove_request robot @ r1
              @ [Wr (toUtf8 ''MoveC''), Wr [LF], Wr (be32 3)]
              @ target_request targetA jointsA matA"
      by (simp add: u4 u3 u2 u1)
  qed
  from u1(2) x c1 c2 show ?thesis by blast
qed

theorem move_without_target_throws_witness:
  "\<exists>r1. list_all is_Rd r1
      \<and> fst (moveX 300000 None None None ex_robot 1 True
               (ex_client (ex_sock [0, 0, 0, 0, 0, 0, 0, 0]))) = Thrown 0
      \<and> client_log (snd (moveX 300000 None None None ex_robot 1 True
               (ex_client (ex_sock [0, 0, 0, 0, 0, 0, 0, 0])))) =
          WaitMove_request ex_robot @ r1 @ [Wr (toUtf8 ''MoveX''), Wr [LF], Wr (be32 1)]
      \<and> fst (moveC 300000 (Some ex_target) None None None None None ex_robot True
               (ex_client (ex_sock [0, 0, 0, 0, 0, 0, 0, 0]))) = Thrown 0
      \<and> client_log (snd (moveC 300000 (Some ex_target) None None None None None ex_robot True
               (ex_client (ex_sock [0, 0, 0, 0, 0, 0, 0, 0])))) =
          WaitMove_request ex_robot @ r1 @ [Wr (toUtf8 ''MoveC''), Wr [LF], Wr (be32 3)]
          @ target_request (Some ex_target) None None"
proof -
  have u: "link_up (ex_client (ex_sock [0, 0, 0, 0, 0, 0, 0, 0]))"
    by (simp add: link_up_def ex_client_def ex_sock_def)
  have l: "client_log (ex_client (ex_sock [0, 0, 0, 0, 0, 0, 0, 0])) = []"
    by (simp add: client_log_def ex_client_def ex_sock_def)
  from move_without_target_throws [OF u, where wait_ms = 300000 and robot = ex_robot
      and movetype = 1 and blocking = True and targetB = None and jointsB = None
      and matB = None and targetA = "Some ex_target" and jointsA = None
      and matA = None]
  obtain r1 where "list_all is_Rd r1
      \<and> fst (moveX 300000 None None None ex_robot 1 True
               (ex_client (ex_sock [0, 0, 0, 0, 0, 0, 0, 0]))) = Thrown 0
      \<and> client_log (snd (moveX 300000 None None None ex_robot 1 True
               (ex_client (ex_sock [0, 0, 0, 0, 0, 0, 0, 0])))) =
          WaitMove_request ex_robot @ r1 @ [Wr (toUtf8 ''MoveX''), Wr [LF], Wr (be32 1)]
      \<and> fst (moveC 300000 (Some ex_target) None None None None None ex_robot True
               (ex_client (ex_sock [0, 0, 0, 0, 0, 0, 0, 0]))) = Thrown 0
      \<and> client_log (snd (moveC 300000 (Some ex_target) None None None None None ex_robot True
               (ex_client (ex_sock [0, 0, 0, 0, 0, 0, 0, 0])))) =
          WaitMove_request ex_robot @ r1 @ [Wr (toUtf8 ''MoveC''), Wr [LF], Wr (be32 3)]
          @ target_request (Some ex_target) None None"
    unfolding l by auto
  then show ?thesis by blast
qed

section \<open>The handshake\<close>

lemma connect_failed_no_socket: "\<not> fst (connect s) \<Longrightarrow> COM (snd (connect s)) = None"
  by (auto simp add: connect_def Let_def split: prod.splits if_splits)

text \<open>
  Claim C6. Whenever \<open>_connect\<close> returns failure the socket pointer is \<open>NULL\<close>
  afterwards and the client is not connected, whatever step failed. In particular, when
  the server accepts the connection and its reply arrives within the timeout but does
  not start with \<open>READY\<close>, the call returns failure and leaves the client with no
  socket; only the connection attempt is used up.
\<close>

theorem connect_failure_disconnected:
  "(\<not> fst (connect s) \<longrightarrow> COM (snd (connect s)) = None \<and> \<not> connected (snd (connect s)))
   \<and> (network s = a # rest \<and> waitForConnected (TIMEOUT s) a
        \<and> replies a = (d, reply) # later \<and> (TIMEOUT s < 0 \<or> int d \<le> TIMEOUT s)
        \<and> \<not> prefix ROBODK_API_READY_STRING (fromUtf8 reply) \<longrightarrow>
      connect s = (False, s\<lparr>COM := None, network := rest\<rparr>)
      \<and> \<not> connected (snd (connect s)))"
proof -
  have A: "\<not> fst (connect s) \<longrightarrow> COM (snd (connect s)) = None \<and> \<not> connected (snd (connect s))"
    by (simp add: connect_failed_no_socket connected_def)
  have B: "connect s = (False, s\<lparr>COM := None, network := rest\<rparr>) \<and> \<not> connected (snd (connect s))"
    if h: "network s = a # rest \<and> waitForConnected (TIMEOUT s) a
        \<and> replies a = (d, reply) # later \<and> (TIMEOUT s < 0 \<or> int d \<le> TIMEOUT s)
        \<and> \<not> prefix ROBODK_API_READY_STRING (fromUtf8 reply)"
  proof -
    have n: "network (disconnect s) = a # rest" "TIMEOUT (disconnect s) = TIMEOUT s"
      using h by (simp_all add: disconnect_def split: option.splits)
    have d: "(disconnect s)\<lparr>network := rest, COM := None\<rparr> = s\<lparr>COM := None, network := rest\<rparr>"
      by (simp add: disconnect_def split: option.splits)
    have c: "connect s = (False, s\<lparr>COM := None, network := rest\<rparr>)"
      using h n d
      by (simp add: connect_def Let_def canReadLine_def sock_write_def waitForReadyRead_def
          readAll_def)
    then show ?thesis by (simp add: connected_def)
  qed
  from A B show ?thesis by blast
qed

theorem connect_failure_disconnected_witness:
  "connect (ex_fresh [ex_server (toUtf8 ''BUSY'' @ [LF])]) = (False, ex_fresh [])
   \<and> \<not> connected (snd (connect (ex_fresh [ex_server (toUtf8 ''BUSY'' @ [LF])])))"
  using connect_failure_disconnected [of "ex_fresh [ex_server (toUtf8 ''BUSY'' @ [LF])]"
      "ex_server (toUtf8 ''BUSY'' @ [LF])" "[]" 2 "toUtf8 ''BUSY'' @ [LF]" "[]"]
  by (simp add: ex_fresh_def ex_server_def waitForConnected_def toUtf8_def fromUtf8_def
      ROBODK_API_READY_STRING_def char_of_def LF_def connected_def)

text \<open>For comparison, a reply that starts with \<open>READY\<close>: the call succeeds and keeps the socket.\<close>

lemma connect_ready_example:
  "connect (ex_fresh [ex_server (toUtf8 ''READY 1'' @ [LF])]) =
     (True, ex_client ((ex_sock [])\<lparr>io_log :=
        [Wr (toUtf8 ''CMD_START''), Wr [LF], Wr (toUtf8 ''1 0''), Wr [LF],
         Rd (toUtf8 ''READY 1'' @ [LF])]\<rparr>))"
  by (simp add: connect_def Let_def canReadLine_def sock_write_def waitForReadyRead_def
        readAll_def ex_fresh_def ex_server_def ex_client_def ex_sock_def waitForConnected_def
        toUtf8_def fromUtf8_def ROBODK_API_READY_STRING_def ROBODK_API_START_STRING_def
        ROBODK_API_LF_def disconnect_def LF_def char_of_def bit_0)

section \<open>The shared timeout\<close>

lemma connect_TIMEOUT: "TIMEOUT (snd (connect s)) = TIMEOUT s"
  by (simp add: connect_def disconnect_def Let_def split: option.splits prod.splits)

lemma scan_output_TIMEOUT: "TIMEOUT (snd (scan_output ls s)) = TIMEOUT s"
  by (induction ls) (simp_all add: connect_TIMEOUT)

lemma connect_smart_TIMEOUT: "TIMEOUT (snd (connect_smart s)) = TIMEOUT s"
proof (cases "connect s")
  case (Pair ok s1)
  with connect_TIMEOUT [of s] have t: "TIMEOUT s1 = TIMEOUT s" by simp
  show ?thesis
  proof (cases ok)
    case True
    with Pair t show ?thesis by (simp add: connect_smart_def)
  next
    case False
    with Pair t show ?thesis
      by (simp add: connect_smart_def scan_output_TIMEOUT split: list.splits)
  qed
qed

lemma check_connection_TIMEOUT: "TIMEOUT (snd (check_connection s)) = TIMEOUT s"
  by (simp add: check_connection_def connect_smart_TIMEOUT)

lemma send_Line_TIMEOUT: "TIMEOUT (snd (send_Line str s)) = TIMEOUT s"
  by (simp add: send_Line_def split: option.splits)

lemma send_Int_TIMEOUT: "TIMEOUT (snd (send_Int v s)) = TIMEOUT s"
  by (simp add: send_Int_def split: option.splits)

lemma send_Item_TIMEOUT: "TIMEOUT (snd (send_Item item s)) = TIMEOUT s"
  by (simp add: send_Item_def split: option.splits)

lemma send_Array_TIMEOUT: "TIMEOUT (snd (send_Array vals n s)) = TIMEOUT s"
  by (simp add: send_Array_def send_Int_def split: option.splits)

lemma send_Array_joints_TIMEOUT: "TIMEOUT (snd (send_Array_joints j s)) = TIMEOUT s"
  by (simp add: send_Array_joints_def send_Int_TIMEOUT send_Array_TIMEOUT split: option.splits)



lemma recv_Item_TIMEOUT: "TIMEOUT (snd (recv_Item s)) = TIMEOUT s"
  by (simp add: recv_Item_def Let_def split: option.splits prod.splits bool.splits)










section \<open>Poses on the wire\<close>

lemma upt_0_4: "[0..<4] = [0, 1, 2, 3]"
  by (simp add: upt_rec)

lemma pose_doubles_explicit:
  "pose_doubles (QMatrix4x4 (QVector4D m00 m01 m02 m03) (QVector4D m10 m11 m12 m13)
                            (QVector4D m20 m21 m22 m23) (QVector4D m30 m31 m32 m33)) =
     [m00, m10, m20, m30, m01, m11, m21, m31, m02, m12, m22, m32, m03, m13, m23, m33]"
  by (simp add: pose_doubles_def upt_0_4 Mat_Get_def)

lemma ds_double_step:
  "ds_double \<lparr>sock_state = st, isOpen = op, buffer = be64 w @ rest, arrivals = ar, io_log = lg\<rparr>
     = (w, \<lparr>sock_state = st, isOpen = op, buffer = rest, arrivals = ar,
            io_log = lg @ [Rd (be64 w)]\<rparr>)"
  by (simp add: ds_double_def ds_quint64_def ds_read_def)

lemma read_column:
  "fold (\<lambda>i (m, sk). let (valuei, sk') = ds_double sk in (Mat_Set fround i j valuei m, sk'))
        [0..<4]
        (m0, \<lparr>sock_state = st, isOpen = op,
              buffer = be64 a @ be64 b @ be64 c @ be64 d @ rest, arrivals = ar, io_log = lg\<rparr>)
   = (Mat_Set fround 3 j d (Mat_Set fround 2 j c (Mat_Set fround 1 j b (Mat_Set fround 0 j a m0))),
      \<lparr>sock_state = st, isOpen = op, buffer = rest, arrivals = ar,
       io_log = lg @ [Rd (be64 a), Rd (be64 b), Rd (be64 c), Rd (be64 d)]\<rparr>)"
  by (simp add: upt_0_4 ds_double_step)

lemma set_all_entries:
  "Mat_Set f 3 3 m33 (Mat_Set f 2 3 m23 (Mat_Set f 1 3 m13 (Mat_Set f 0 3 m03
   (Mat_Set f 3 2 m32 (Mat_Set f 2 2 m22 (Mat_Set f 1 2 m12 (Mat_Set f 0 2 m02
   (Mat_Set f 3 1 m31 (Mat_Set f 2 1 m21 (Mat_Set f 1 1 m11 (Mat_Set f 0 1 m01
   (Mat_Set f 3 0 m30 (Mat_Set f 2 0 m20 (Mat_Set f 1 0 m10 (Mat_Set f 0 0 m00
     m0)))))))))))))))
   = QMatrix4x4 (QVector4D (f m00) (f m01) (f m02) (f m03))
                (QVector4D (f m10) (f m11) (f m12) (f m13))
                (QVector4D (f m20) (f m21) (f m22) (f m23))
                (QVector4D (f m30) (f m31) (f m32) (f m33))"
proof -
  obtain r0 r1 r2 r3 where m: "m0 = QMatrix4x4 r0 r1 r2 r3" by (cases m0)
  obtain a0 a1 a2 a3 where r0: "r0 = QVector4D a0 a1 a2 a3" by (cases r0)
  obtain b0 b1 b2 b3 where r1: "r1 = QVector4D b0 b1 b2 b3" by (cases r1)
  obtain c0 c1 c2 c3 where r2: "r2 = QVector4D c0 c1 c2 c3" by (cases r2)
  obtain e0 e1 e2 e3 where r3: "r3 = QVector4D e0 e1 e2 e3" by (cases r3)
  show ?thesis
    by (simp add: m r0 r1 r2 r3 Mat_Set_def)
qed

lemma recv_Pose_loop_wire:
  "recv_Pose_loop fround (m0, \<lparr>sock_state = st, isOpen = op,
      buffer = be64 m00 @ be64 m10 @ be64 m20 @ be64 m30 @ be64 m01 @ be64 m11 @ be64 m21
        @ be64 m31 @ be64 m02 @ be64 m12 @ be64 m22 @ be64 m32 @ be64 m03 @ be64 m13
        @ be64 m23 @ be64 m33 @ rest,
      arrivals = ar, io_log = lg\<rparr>)
   = (QMatrix4x4 (QVector4D (fround m00) (fround m01) (fround m02) (fround m03))
                 (QVector4D (fround m10) (fround m11) (fround m12) (fround m13))
                 (QVector4D (fround m20) (fround m21) (fround m22) (fround m23))
                 (QVector4D (fround m30) (fround m31) (fround m32) (fround m33)),
      \<lparr>sock_state = st, isOpen = op, buffer = rest, arrivals = ar,
       io_log = lg @ map (\<lambda>v. Rd (be64 v))
         [m00, m10, m20, m30, m01, m11, m21, m31, m02, m12, m22, m32, m03, m13, m23, m33]\<rparr>)"
proof -
  have "recv_Pose_loop fround =
      fold (\<lambda>j. fold (\<lambda>i (m, sk). let (valuei, sk') = ds_double sk
                                   in (Mat_Set fround i j valuei m, sk')) [0..<4])
           [0, 1, 2, 3]"
    unfolding recv_Pose_loop_def by (rule arg_cong [OF upt_0_4])
  then show ?thesis
    by (simp only: fold_simps o_apply id_apply read_column set_all_entries)
       simp
qed

lemma recv_Pose_wire:
  assumes c: "COM s = Some sock" and b: "buffer sock = pose_wire m @ rest"
    and f: "\<forall>v \<in> set (pose_doubles m). fround v = v"
  shows "fst (recv_Pose fround s) = m
       \<and> (\<exists>sock'. COM (snd (recv_Pose fround s)) = Some sock' \<and> buffer sock' = rest)"
proof -
  obtain r0 r1 r2 r3 where m: "m = QMatrix4x4 r0 r1 r2 r3" by (cases m)
  obtain m00 m01 m02 m03 where r0: "r0 = QVector4D m00 m01 m02 m03" by (cases r0)
  obtain m10 m11 m12 m13 where r1: "r1 = QVector4D m10 m11 m12 m13" by (cases r1)
  obtain m20 m21 m22 m23 where r2: "r2 = QVector4D m20 m21 m22 m23" by (cases r2)
  obtain m30 m31 m32 m33 where r3: "r3 = QVector4D m30 m31 m32 m33" by (cases r3)
  note mm = m r0 r1 r2 r3
  obtain st op bf ar lg where sk: "sock = \<lparr>sock_state = st, isOpen = op, buffer = bf,
      arrivals = ar, io_log = lg\<rparr>" by (cases sock)
  have bf: "bf = be64 m00 @ be64 m10 @ be64 m20 @ be64 m30 @ be64 m01 @ be64 m11 @ be64 m21
      @ be64 m31 @ be64 m02 @ be64 m12 @ be64 m22 @ be64 m32 @ be64 m03 @ be64 m13
      @ be64 m23 @ be64 m33 @ rest"
    using b by (simp add: sk mm pose_wire_def pose_doubles_explicit)
  have fr: "fround m00 = m00" "fround m01 = m01" "fround m02 = m02" "fround m03 = m03"
    "fround m10 = m10" "fround m11 = m11" "fround m12 = m12" "fround m13 = m13"
    "fround m20 = m20" "fround m21 = m21" "fround m22 = m22" "fround m23 = m23"
    "fround m30 = m30" "fround m31 = m31" "fround m32 = m32" "fround m33 = m33"
    using f by (simp_all add: mm pose_doubles_explicit)
  have a: "await_bytes 128 (TIMEOUT s) sock = (True, sock)"
    by (rule await_bytes_enough) (simp add: bytesAvailable_def sk bf)
  have l: "recv_Pose_loop fround (Mat_init, sock) =
      (m, \<lparr>sock_state = st, isOpen = op, buffer = rest, arrivals = ar,
           io_log = lg @ map (\<lambda>v. Rd (be64 v)) (pose_doubles m)\<rparr>)"
    unfolding sk bf recv_Pose_loop_wire by (simp add: fr mm pose_doubles_explicit)
  show ?thesis
    by (simp add: recv_Pose_def c a l)
qed

lemma send_Pose_loop_log:
  "send_Pose_loop m sock = sock\<lparr>io_log := io_log sock @ map (\<lambda>v. Wr (be64 v)) (pose_doubles m)\<rparr>"
  by (simp add: send_Pose_loop_def upt_0_4 pose_doubles_def sock_write_def del: upt_rec_numeral)

lemma written_writes: "written (map (\<lambda>v. Wr (be64 v)) vs) = concat (map be64 vs)"
  by (induction vs) simp_all

text \<open>
  Claim C7. A pose holds single-precision components, so each of the doubles it gives is
  one that the conversion to single precision leaves as it is; that is the hypothesis on
  \<open>fround\<close>. \<open>_send_Pose\<close> on an open socket writes the 16 doubles of the pose, eight
  bytes each, in column-major order: the bytes written are \<open>pose_wire m\<close>. \<open>_recv_Pose\<close>
  on a buffer that starts with these bytes returns the pose \<open>m\<close> itself, every component
  bit for bit, and leaves in the buffer exactly what followed them.
\<close>

theorem pose_roundtrip:
  assumes "COM tx = Some a" and "isOpen a" and "COM rx = Some b"
    and "buffer b = pose_wire m @ rest"
    and "\<forall>v \<in> set (pose_doubles m). fround v = v"
  shows "send_Pose m tx =
           (True, tx\<lparr>COM := Some (a\<lparr>io_log := io_log a @ map (\<lambda>v. Wr (be64 v)) (pose_doubles m)\<rparr>)\<rparr>)
       \<and> written (map (\<lambda>v. Wr (be64 v)) (pose_doubles m)) = pose_wire m
       \<and> fst (recv_Pose fround rx) = m
       \<and> (\<exists>b'. COM (snd (recv_Pose fround rx)) = Some b' \<and> buffer b' = rest)
       \<and> (\<forall>m00 m01 m02 m03 m10 m11 m12 m13 m20 m21 m22 m23 m30 m31 m32 m33.
            m = QMatrix4x4 (QVector4D m00 m01 m02 m03) (QVector4D m10 m11 m12 m13)
                           (QVector4D m20 m21 m22 m23) (QVector4D m30 m31 m32 m33) \<longrightarrow>
            pose_doubles m =
              [m00, m10, m20, m30, m01, m11, m21, m31, m02, m12, m22, m32, m03, m13, m23, m33])"
proof -
  have s: "send_Pose m tx =
      (True, tx\<lparr>COM := Some (a\<lparr>io_log := io_log a @ map (\<lambda>v. Wr (be64 v)) (pose_doubles m)\<rparr>)\<rparr>)"
    using assms(1,2) by (simp add: send_Pose_def send_Pose_loop_log)
  have w: "written (map (\<lambda>v. Wr (be64 v)) (pose_doubles m)) = pose_wire m"
    by (simp add: written_writes pose_wire_def)
  from s w recv_Pose_wire [OF assms(3,4,5)] show ?thesis
    by (auto simp add: pose_doubles_explicit)
qed

lemma ex_fround_one: "ex_fround d_one = d_one"
  by (simp add: ex_fround_def d_one_def)

lemma ex_fround_zero: "ex_fround d_zero = d_zero"
  by (simp add: ex_fround_def d_zero_def)

theorem pose_roundtrip_witness:
  "send_Pose Mat_init (ex_client (ex_sock [])) =
     (True, ex_client ((ex_sock [])\<lparr>io_log := map (\<lambda>v. Wr (be64 v))
        [d_one, d_zero, d_zero, d_zero, d_zero, d_one, d_zero, d_zero,
         d_zero, d_zero, d_one, d_zero, d_zero, d_zero, d_zero, d_one]\<rparr>))
   \<and> fst (recv_Pose ex_fround (ex_client (ex_sock (pose_wire Mat_init @ [1, 2])))) = Mat_init
   \<and> (\<exists>b'. COM (snd (recv_Pose ex_fround (ex_client (ex_sock (pose_wire Mat_init @ [1, 2])))))
            = Some b' \<and> buffer b' = [1, 2])"
proof -
  have p: "pose_doubles Mat_init =
        [d_one, d_zero, d_zero, d_zero, d_zero, d_one, d_zero, d_zero,
         d_zero, d_zero, d_one, d_zero, d_zero, d_zero, d_zero, d_one]"
    by (simp add: Mat_init_def pose_doubles_explicit)
  have f: "\<forall>v \<in> set (pose_doubles Mat_init). ex_fround v = v"
    by (simp add: p ex_fround_one ex_fround_zero)
  have c: "COM (ex_client (ex_sock [])) = Some (ex_sock [])" "isOpen (ex_sock [])"
      "COM (ex_client (ex_sock (pose_wire Mat_init @ [1, 2])))
         = Some (ex_sock (pose_wire Mat_init @ [1, 2]))"
      "buffer (ex_sock (pose_wire Mat_init @ [1, 2])) = pose_wire Mat_init @ [1, 2]"
    by (simp_all add: ex_client_def ex_sock_def)
  from pose_roundtrip [OF c f] show ?thesis
    by (simp add: p ex_client_def ex_sock_def)
qed

text \<open>
  Claim C9. When fewer than 128 bytes are available, before and after the one wait,
  \<open>_recv_Pose\<close> reads nothing and returns the default-constructed pose, the identity
  matrix. The function returns a pose and nothing else, and a buffer that holds a
  genuine identity pose makes it return the same value (given that the conversion to
  single precision keeps 1.0 and 0.0), so the caller cannot tell the two apart.
\<close>

theorem recv_Pose_failure_is_identity:
  assumes "COM s = Some sock" and "bytesAvailable sock < 128"
    and "bytesAvailable (snd (waitForReadyRead (TIMEOUT s) sock)) < 128"
  shows "recv_Pose fround s =
           (Mat_init, s\<lparr>COM := Some (snd (waitForReadyRead (TIMEOUT s) sock))\<rparr>)
       \<and> Mat_init = QMatrix4x4 (QVector4D d_one d_zero d_zero d_zero)
                               (QVector4D d_zero d_one d_zero d_zero)
                               (QVector4D d_zero d_zero d_one d_zero)
                               (QVector4D d_zero d_zero d_zero d_one)
       \<and> client_log (snd (recv_Pose fround s)) = client_log s
       \<and> (fround d_one = d_one \<and> fround d_zero = d_zero \<and> COM s' = Some sock'
            \<and> buffer sock' = pose_wire Mat_init @ rest \<longrightarrow>
          fst (recv_Pose fround s') = fst (recv_Pose fround s))"
proof -
  have a: "await_bytes 128 (TIMEOUT s) sock = (False, snd (waitForReadyRead (TIMEOUT s) sock))"
    using assms(2,3) by (rule await_bytes_short)
  have r: "recv_Pose fround s =
      (Mat_init, s\<lparr>COM := Some (snd (waitForReadyRead (TIMEOUT s) sock))\<rparr>)"
    by (simp add: recv_Pose_def assms(1) a)
  have l: "client_log (snd (recv_Pose fround s)) = client_log s"
    using waitForReadyRead_frame [of "TIMEOUT s" sock]
    by (simp add: r client_log_def assms(1))
  have g: "fst (recv_Pose fround s') = fst (recv_Pose fround s)"
    if h: "fround d_one = d_one \<and> fround d_zero = d_zero \<and> COM s' = Some sock'
            \<and> buffer sock' = pose_wire Mat_init @ rest"
  proof -
    have "\<forall>v \<in> set (pose_doubles Mat_init). fround v = v"
      using h by (simp add: Mat_init_def pose_doubles_explicit)
    with h have "fst (recv_Pose fround s') = Mat_init"
      using recv_Pose_wire [of s' sock' Mat_init rest fround] by simp
    then show ?thesis by (simp add: r)
  qed
  from r l g show ?thesis by (simp add: Mat_init_def)
qed

theorem recv_Pose_failure_is_identity_witness:
  "recv_Pose ex_fround (ex_client (ex_sock [1, 2, 3])) = (Mat_init, ex_client (ex_sock [1, 2, 3]))
   \<and> fst (recv_Pose ex_fround (ex_client (ex_sock (pose_wire Mat_init)))) =
       fst (recv_Pose ex_fround (ex_client (ex_sock [1, 2, 3])))"
proof -
  have c: "COM (ex_client (ex_sock [1, 2, 3])) = Some (ex_sock [1, 2, 3])"
      "bytesAvailable (ex_sock [1, 2, 3]) < 128"
      "bytesAvailable (snd (waitForReadyRead (TIMEOUT (ex_client (ex_sock [1, 2, 3])))
          (ex_sock [1, 2, 3]))) < 128"
    by (simp_all add: ex_client_def ex_sock_def bytesAvailable_def waitForReadyRead_def)
  have w: "snd (waitForReadyRead (TIMEOUT (ex_client (ex_sock [1, 2, 3]))) (ex_sock [1, 2, 3]))
      = ex_sock [1, 2, 3]"
    by (simp add: ex_sock_def waitForReadyRead_def)
  from recv_Pose_failure_is_identity [OF c, of ex_fround
      "ex_client (ex_sock (pose_wire Mat_init))" "ex_sock (pose_wire Mat_init)" "[]"]
  show ?thesis
    by (simp add: w ex_fround_one ex_fround_zero) (simp add: ex_client_def ex_sock_def)
qed

end
